theory Spec2Isabelle
  imports Complex_Main "HOL-Library.Monad_Syntax" "HOL-Library.Sublist"
begin

section \<open>JavaScript values\<close>

text \<open>
  The routes of \<^verbatim>\<open>src/src/routes\<close> receive a parsed request body (\<^verbatim>\<open>express.json()\<close>,
  \<^verbatim>\<open>express.urlencoded({extended: true})\<close> in \<^verbatim>\<open>src/src/app.js\<close>): an object whose
  property values are arbitrary JSON values. A property that is absent reads as
  \<^verbatim>\<open>undefined\<close>. Numbers are rationals here (every finite double is one); strings are
  lists of code units below 256.
\<close>

datatype jsval =
    JUndefined
  | JNull
  | JBool bool
  | JNum rat
  | JStr string
  | JArr "jsval list"
  | JObj "(string \<times> jsval) list"

type_synonym jsobject = "(string \<times> jsval) list"

text \<open>\<^verbatim>\<open>req.body.k\<close>: the value of property \<open>k\<close>, \<^verbatim>\<open>undefined\<close> when there is none.\<close>

definition get_prop :: "jsobject \<Rightarrow> string \<Rightarrow> jsval" where
  "get_prop obj k = (case map_of obj k of None \<Rightarrow> JUndefined | Some v \<Rightarrow> v)"

text \<open>JavaScript truthiness, as \<^verbatim>\<open>||\<close> tests it.\<close>

fun truthy :: "jsval \<Rightarrow> bool" where
  "truthy JUndefined = False"
| "truthy JNull = False"
| "truthy (JBool b) = b"
| "truthy (JNum x) = (x \<noteq> 0)"
| "truthy (JStr s) = (s \<noteq> [])"
| "truthy (JArr xs) = True"
| "truthy (JObj kvs) = True"

subsection \<open>Characters and decimal digits\<close>

definition char_code :: "char \<Rightarrow> int" where
  "char_code c = of_char c"

definition is_digit :: "char \<Rightarrow> bool" where
  "is_digit c = (48 \<le> char_code c \<and> char_code c \<le> 57)"

definition is_upper :: "char \<Rightarrow> bool" where
  "is_upper c = (65 \<le> char_code c \<and> char_code c \<le> 90)"

definition is_lower :: "char \<Rightarrow> bool" where
  "is_lower c = (97 \<le> char_code c \<and> char_code c \<le> 122)"

text \<open>The class \<^verbatim>\<open>\s\<close> of a JavaScript regular expression, on code units below 256:
  tab, line feed, vertical tab, form feed, carriage return, space and no-break space.
  \<^verbatim>\<open>String.prototype.trim\<close> strips the same characters.\<close>

definition is_space :: "char \<Rightarrow> bool" where
  "is_space c = (char_code c \<in> {9, 10, 11, 12, 13, 32, 160})"

definition digit_char :: "int \<Rightarrow> char" where
  "digit_char d = ''0123456789'' ! nat (d mod 10)"

definition digit_value :: "char \<Rightarrow> int" where
  "digit_value c = char_code c - 48"

text \<open>The decimal digits of a non-negative integer, and the value of a digit string.\<close>

function nat_digits :: "int \<Rightarrow> string" where
  "nat_digits n =
     (if n < 10 then [digit_char n] else nat_digits (n div 10) @ [digit_char (n mod 10)])"
  by pat_completeness auto
termination
  by (relation "measure nat") auto

declare nat_digits.simps [simp del]

definition digits_value :: "string \<Rightarrow> int" where
  "digits_value s = foldl (\<lambda>a c. 10 * a + digit_value c) 0 s"

subsection \<open>Number to string\<close>

text \<open>
  \<^verbatim>\<open>String(x)\<close> for a number (ECMAScript \<^verbatim>\<open>Number::toString\<close>): plain decimal notation
  for \<open>10\<^sup>-\<^sup>6 \<le> |x| < 10\<^sup>2\<^sup>1\<close>, exponent notation outside. The digits of a fraction are
  produced by long division, at most \<open>fraction_limit\<close> of them: exact for every number
  with a shorter decimal expansion.
\<close>

definition fraction_limit :: nat where
  "fraction_limit = 24"

fun frac_digits :: "nat \<Rightarrow> rat \<Rightarrow> string" where
  "frac_digits 0 r = []"
| "frac_digits (Suc k) r =
     (if r = 0 then []
      else digit_char \<lfloor>10 * r\<rfloor> # frac_digits k (10 * r - of_int \<lfloor>10 * r\<rfloor>))"

definition strip_zeros :: "string \<Rightarrow> string" where
  "strip_zeros s = rev (dropWhile (\<lambda>c. c = CHR ''0'') (rev s))"

text \<open>The decimal exponent of a number below one: the least \<open>n\<close> with \<open>a * 10\<^sup>n \<ge> 1\<close>,
  searched up to \<open>fuel\<close> (the smallest positive double is above \<open>10\<^sup>-\<^sup>3\<^sup>2\<^sup>4\<close>).\<close>

fun small_exponent :: "nat \<Rightarrow> rat \<Rightarrow> nat" where
  "small_exponent 0 a = 0"
| "small_exponent (Suc fuel) a = (if 1 \<le> a then 0 else Suc (small_exponent fuel (10 * a)))"

definition plain_string :: "rat \<Rightarrow> string" where
  "plain_string a =
     nat_digits \<lfloor>a\<rfloor> @
     (if a = of_int \<lfloor>a\<rfloor> then [] else CHR ''.'' # frac_digits fraction_limit (a - of_int \<lfloor>a\<rfloor>))"

definition mantissa_string :: "string \<Rightarrow> string" where
  "mantissa_string ds =
     (case strip_zeros ds of
        [] \<Rightarrow> ''0''
      | [d] \<Rightarrow> [d]
      | d # rest \<Rightarrow> d # CHR ''.'' # rest)"

definition magnitude_string :: "rat \<Rightarrow> string" where
  "magnitude_string a =
     (if a = 0 then ''0''
      else if 10 ^ 21 \<le> a then
        (let ds = nat_digits \<lfloor>a\<rfloor>
         in mantissa_string ds @ ''e+'' @ nat_digits (int (length ds) - 1))
      else if a < 1 / 10 ^ 6 then
        (let n = small_exponent 400 a
         in plain_string (a * 10 ^ n) @ ''e-'' @ nat_digits (int n))
      else plain_string a)"

definition number_string :: "rat \<Rightarrow> string" where
  "number_string x = (if x < 0 then CHR ''-'' # magnitude_string (- x) else magnitude_string x)"

subsection \<open>Values to strings\<close>

definition join_comma :: "string list \<Rightarrow> string" where
  "join_comma xs = concat (case xs of [] \<Rightarrow> [] | y # ys \<Rightarrow> y # map (\<lambda>z. CHR '','' # z) ys)"

text \<open>
  \<^verbatim>\<open>String(v)\<close>. An array is its elements joined by commas, \<^verbatim>\<open>null\<close> and
  \<^verbatim>\<open>undefined\<close> elements as the empty string (\<^verbatim>\<open>Array.prototype.join\<close>); an object of
  a JSON body is \<^verbatim>\<open>[object Object]\<close> (an object with a property of its own called
  \<^verbatim>\<open>toString\<close> or \<^verbatim>\<open>valueOf\<close> is not modelled apart).
\<close>

fun js_string :: "jsval \<Rightarrow> string" where
  "js_string JUndefined = ''undefined''"
| "js_string JNull = ''null''"
| "js_string (JBool b) = (if b then ''true'' else ''false'')"
| "js_string (JNum x) = number_string x"
| "js_string (JStr s) = s"
| "js_string (JArr xs) =
     join_comma (map (\<lambda>v. if v = JUndefined \<or> v = JNull then [] else js_string v) xs)"
| "js_string (JObj kvs) = ''[object Object]''"

section \<open>The validation middleware (express-validator)\<close>

text \<open>
  The routes build their checks with \<^verbatim>\<open>body(field)\<close> chains and read the outcome with
  \<^verbatim>\<open>validationResult(req)\<close>. The library is not part of the repository, and the
  repository does not say which release it installs; its behaviour is written out here as
  far as the routes use it, for the releases 6 and 7, which treat arrays differently. The
  release is a parameter of the platform, with three functions: the ISO 8601 test of the
  library, \<^verbatim>\<open>Date.parse\<close>, and the verification of a bearer token, which yields the
  identity the token was issued for.
\<close>

datatype ev_release = Release6 | Release7

record platform =
  release :: ev_release
  iso8601 :: "string \<Rightarrow> bool"
  date_parse :: "string \<Rightarrow> int option"
  verify_token :: "string \<Rightarrow> string option"

text \<open>
  The library's \<^verbatim>\<open>toString\<close>, which hands a value to a validator. \<^verbatim>\<open>null\<close> and
  \<^verbatim>\<open>undefined\<close> are the empty string, everything else is \<^verbatim>\<open>String(value)\<close>; that is
  \<^verbatim>\<open>toString(value)\<close> of release 7 and \<^verbatim>\<open>toString(value, false)\<close> of release 6. In
  release 6 the validators call \<^verbatim>\<open>toString(value)\<close> with \<^verbatim>\<open>deep = true\<close>, where a
  non-empty array stands for its first element. The conversion of an object calls its
  \<^verbatim>\<open>toString\<close>; the objects of a body are taken to have none of their own.
\<close>

fun ev_toString_inner :: "jsval \<Rightarrow> string" where
  "ev_toString_inner JUndefined = []"
| "ev_toString_inner JNull = []"
| "ev_toString_inner v = js_string v"

fun ev_toString :: "ev_release \<Rightarrow> jsval \<Rightarrow> string" where
  "ev_toString Release6 (JArr (x # xs)) = ev_toString_inner x"
| "ev_toString rel v = ev_toString_inner v"

subsection \<open>The regular expressions of the routes\<close>

datatype regex = AlnumSpaces | LettersSpaces | Phone | NationalId | TimeHHMM

definition is_alnum :: "char \<Rightarrow> bool" where
  "is_alnum c = (is_lower c \<or> is_upper c \<or> is_digit c)"

definition minute :: "char \<Rightarrow> char \<Rightarrow> bool" where
  "minute m1 m2 = (48 \<le> char_code m1 \<and> char_code m1 \<le> 53 \<and> is_digit m2)"

text \<open>\<^verbatim>\<open>/^([0-1]?[0-9]|2[0-3]):[0-5][0-9]$/\<close>\<close>

fun time_hhmm :: "string \<Rightarrow> bool" where
  "time_hhmm [h, c, m1, m2] = (is_digit h \<and> c = CHR '':'' \<and> minute m1 m2)"
| "time_hhmm [h1, h2, c, m1, m2] =
     (((char_code h1 \<in> {48, 49} \<and> is_digit h2) \<or>
       (h1 = CHR ''2'' \<and> 48 \<le> char_code h2 \<and> char_code h2 \<le> 51)) \<and>
      c = CHR '':'' \<and> minute m1 m2)"
| "time_hhmm s = False"

text \<open>
  \<^verbatim>\<open>/^[a-zA-Z0-9\s]+$/\<close>, \<^verbatim>\<open>/^[a-zA-Z\s]+$/\<close>, \<^verbatim>\<open>/^[0-9]{10,12}$/\<close>,
  \<^verbatim>\<open>/^[A-Z0-9]{10,15}$/\<close> and the time pattern: \<open>regex_test r s\<close> is \<^verbatim>\<open>r.test(s)\<close>.
\<close>

fun regex_test :: "regex \<Rightarrow> string \<Rightarrow> bool" where
  "regex_test AlnumSpaces s = (s \<noteq> [] \<and> list_all (\<lambda>c. is_alnum c \<or> is_space c) s)"
| "regex_test LettersSpaces s =
     (s \<noteq> [] \<and> list_all (\<lambda>c. is_lower c \<or> is_upper c \<or> is_space c) s)"
| "regex_test Phone s = (10 \<le> length s \<and> length s \<le> 12 \<and> list_all is_digit s)"
| "regex_test NationalId s =
     (10 \<le> length s \<and> length s \<le> 15 \<and> list_all (\<lambda>c. is_upper c \<or> is_digit c) s)"
| "regex_test TimeHHMM s = time_hhmm s"

subsection \<open>Numeric validators\<close>

text \<open>An optional sign and what follows it.\<close>

fun split_sign :: "string \<Rightarrow> bool \<times> string" where
  "split_sign [] = (False, [])"
| "split_sign (c # cs) =
     (if c = CHR ''-'' then (True, cs) else if c = CHR ''+'' then (False, cs) else (False, c # cs))"

definition signed :: "bool \<Rightarrow> rat \<Rightarrow> rat" where
  "signed neg x = (if neg then - x else x)"

text \<open>
  \<^verbatim>\<open>isInt(str, {min})\<close>: \<^verbatim>\<open>/^[-+]?[0-9]+$/.test(str) && str >= min\<close>; the comparison
  converts the string to its number.
\<close>

definition int_literal :: "string \<Rightarrow> bool" where
  "int_literal s = (case split_sign s of (neg, ds) \<Rightarrow> ds \<noteq> [] \<and> list_all is_digit ds)"

definition int_literal_value :: "string \<Rightarrow> rat" where
  "int_literal_value s = (case split_sign s of (neg, ds) \<Rightarrow> signed neg (of_int (digits_value ds)))"

definition isInt :: "rat \<Rightarrow> string \<Rightarrow> bool" where
  "isInt minimum s = (int_literal s \<and> minimum \<le> int_literal_value s)"

text \<open>
  \<^verbatim>\<open>isFloat(str, {min})\<close>: the strings \<^verbatim>\<open>''\<close>, \<^verbatim>\<open>.\<close>, \<^verbatim>\<open>,\<close>, \<^verbatim>\<open>-\<close>, \<^verbatim>\<open>+\<close> are refused;
  otherwise \<^verbatim>\<open>/^[-+]?([0-9]+)?(\.[0-9]*)?([eE][+-]?[0-9]+)?$/\<close> must match and
  \<^verbatim>\<open>parseFloat(str) >= min\<close>. \<open>float_parts\<close> splits a matching string into sign, integer
  digits, fraction digits and exponent; \<open>float_value\<close> is \<^verbatim>\<open>parseFloat\<close> of such a
  string, \<open>None\<close> for \<^verbatim>\<open>NaN\<close> (no digit in the mantissa). Rounding to a double is not
  modelled.
\<close>

definition exponent_part :: "string \<Rightarrow> int option" where
  "exponent_part s =
     (case s of
        [] \<Rightarrow> Some 0
      | c # cs \<Rightarrow>
          if c = CHR ''e'' \<or> c = CHR ''E'' then
            (case split_sign cs of (neg, ds) \<Rightarrow>
               if ds \<noteq> [] \<and> list_all is_digit ds
               then Some (if neg then - digits_value ds else digits_value ds) else None)
          else None)"

definition float_parts :: "string \<Rightarrow> (bool \<times> string \<times> string \<times> int) option" where
  "float_parts s =
     (case split_sign s of (neg, r) \<Rightarrow>
        let ip = takeWhile is_digit r;
            r1 = dropWhile is_digit r;
            fp = (case r1 of c # cs \<Rightarrow> if c = CHR ''.'' then takeWhile is_digit cs else [] | [] \<Rightarrow> []);
            r2 = (case r1 of c # cs \<Rightarrow> if c = CHR ''.'' then dropWhile is_digit cs else r1 | [] \<Rightarrow> [])
        in (case exponent_part r2 of None \<Rightarrow> None | Some e \<Rightarrow> Some (neg, ip, fp, e)))"

definition scale10 :: "rat \<Rightarrow> int \<Rightarrow> rat" where
  "scale10 x e = (if 0 \<le> e then x * 10 ^ nat e else x / 10 ^ nat (- e))"

definition float_value :: "bool \<times> string \<times> string \<times> int \<Rightarrow> rat option" where
  "float_value p =
     (case p of (neg, ip, fp, e) \<Rightarrow>
        if ip = [] \<and> fp = [] then None
        else Some (signed neg
               (scale10 (of_int (digits_value ip) + of_int (digits_value fp) / 10 ^ length fp) e)))"

definition isFloat :: "rat \<Rightarrow> string \<Rightarrow> bool" where
  "isFloat minimum s =
     (s \<notin> {'''', ''.'', '','', ''-'', ''+''} \<and>
      (case float_parts s of
         None \<Rightarrow> False
       | Some p \<Rightarrow> (case float_value p of None \<Rightarrow> False | Some v \<Rightarrow> minimum \<le> v)))"

subsection \<open>Validation chains\<close>

text \<open>
  The validators the routes use. Each stands in a chain \<^verbatim>\<open>body(field)\<close> with the message
  given by \<^verbatim>\<open>withMessage\<close>. \<^verbatim>\<open>notEmpty()\<close> refuses the empty string only;
  \<^verbatim>\<open>isIn(values)\<close> asks for one of the listed strings.
\<close>

datatype rule =
    Matches regex
  | IsLength nat
  | IsInt rat
  | IsFloat rat
  | IsIn "string list"
  | NotEmpty
  | IsISO8601

fun rule_ok :: "platform \<Rightarrow> rule \<Rightarrow> string \<Rightarrow> bool" where
  "rule_ok P (Matches r) s = regex_test r s"
| "rule_ok P (IsLength n) s = (n \<le> length s)"
| "rule_ok P (IsInt m) s = isInt m s"
| "rule_ok P (IsFloat m) s = isFloat m s"
| "rule_ok P (IsIn vs) s = (s \<in> set vs)"
| "rule_ok P NotEmpty s = (s \<noteq> [])"
| "rule_ok P IsISO8601 s = iso8601 P s"

type_synonym chain = "string \<times> (rule \<times> string) list"

text \<open>One entry of \<^verbatim>\<open>errors.array()\<close>.\<close>

record verror =
  err_value :: jsval
  err_msg :: string
  err_path :: string
  err_location :: string

text \<open>
  A validator runs on the string of the field's value. Release 6 runs it once, on the
  value as a whole. Release 7 runs it on every element when the value is an array, so
  that an empty array passes every validator. The entry of a failure carries the value the
  validator ran on. No chain of the routes is optional or bails out, so every validator of
  every chain runs and each failure adds an entry, in the order of the chains.
\<close>

fun values_of :: "ev_release \<Rightarrow> jsval \<Rightarrow> jsval list" where
  "values_of Release7 (JArr xs) = xs"
| "values_of rel v = [v]"

definition run_rule :: "platform \<Rightarrow> string \<Rightarrow> jsval \<Rightarrow> rule \<times> string \<Rightarrow> verror list" where
  "run_rule P field v rm =
     concat (map (\<lambda>e. if rule_ok P (fst rm) (ev_toString (release P) e) then []
                       else [\<lparr>err_value = e, err_msg = snd rm, err_path = field,
                              err_location = ''body''\<rparr>])
                 (values_of (release P) v))"

definition run_chain :: "platform \<Rightarrow> jsobject \<Rightarrow> chain \<Rightarrow> verror list" where
  "run_chain P body ch = concat (map (run_rule P (fst ch) (get_prop body (fst ch))) (snd ch))"

definition validationResult :: "platform \<Rightarrow> chain list \<Rightarrow> jsobject \<Rightarrow> verror list" where
  "validationResult P chs body = concat (map (run_chain P body) chs)"

text \<open>
  The entries as the response carries them (\<^verbatim>\<open>res.json({ errors: errors.array() })\<close>, no
  formatter): release 6 of the library names the field \<^verbatim>\<open>param\<close>, release 7 names it
  \<^verbatim>\<open>path\<close> and adds \<^verbatim>\<open>type\<close>. A value that is \<^verbatim>\<open>undefined\<close> is left out by JSON.
\<close>

definition error_json :: "ev_release \<Rightarrow> verror \<Rightarrow> jsobject" where
  "error_json rel e =
     (case rel of Release6 \<Rightarrow> [] | Release7 \<Rightarrow> [(''type'', JStr ''field'')]) @
     (if err_value e = JUndefined then [] else [(''value'', err_value e)]) @
     [(''msg'', JStr (err_msg e)),
      (case rel of Release6 \<Rightarrow> ''param'' | Release7 \<Rightarrow> ''path'', JStr (err_path e)),
      (''location'', JStr (err_location e))]"

text \<open>\<^verbatim>\<open>src/src/routes/procurementRoutes.js\<close>, lines 78 to 90.\<close>

definition procurement_chains :: "chain list" where
  "procurement_chains =
    [(''produceName'', [(Matches AlnumSpaces, ''Produce name must be alphanumeric'')]),
     (''produceType'', [(IsLength 2, ''Produce type must be at least 2 characters''),
                        (Matches LettersSpaces, ''Produce type must contain only letters'')]),
     (''time'', [(Matches TimeHHMM, ''Please enter valid time (HH:MM)'')]),
     (''tonnage'', [(IsInt 100, ''Tonnage must be at least 100 kg'')]),
     (''cost'', [(IsFloat 10000, ''Cost must be at least 10,000 UgX'')]),
     (''dealerName'', [(IsLength 2, ''Dealer name must be at least 2 characters''),
                       (Matches AlnumSpaces, ''Dealer name must be alphanumeric'')]),
     (''branch'', [(IsIn [''Maganjo'', ''Matugga''], ''Branch must be Maganjo or Matugga'')]),
     (''contact'', [(Matches Phone, ''Please enter a valid phone number'')]),
     (''sellingPrice'', [(IsFloat 1000, ''Selling price must be at least 1,000 UgX'')])]"

text \<open>\<^verbatim>\<open>src/src/routes/salesRoutes.js\<close>, lines 67 to 76.\<close>

definition cash_chains :: "chain list" where
  "cash_chains =
    [(''produceName'', [(NotEmpty, ''Produce name is required'')]),
     (''tonnage'', [(IsInt 1, ''Tonnage must be at least 1 kg'')]),
     (''amountPaid'', [(IsFloat 10000, ''Amount paid must be at least 10,000 UgX'')]),
     (''buyerName'', [(IsLength 2, ''Buyer name must be at least 2 characters''),
                      (Matches AlnumSpaces, ''Buyer name must be alphanumeric'')]),
     (''salesAgentName'', [(IsLength 2, ''Sales agent name must be at least 2 characters''),
                           (Matches AlnumSpaces, ''Sales agent name must be alphanumeric'')]),
     (''time'', [(Matches TimeHHMM, ''Please enter valid time (HH:MM)'')])]"

text \<open>\<^verbatim>\<open>src/src/routes/salesRoutes.js\<close>, lines 168 to 182.\<close>

definition credit_chains :: "chain list" where
  "credit_chains =
    [(''buyerName'', [(IsLength 2, ''Buyer name must be at least 2 characters''),
                      (Matches AlnumSpaces, ''Buyer name must be alphanumeric'')]),
     (''nationalId'', [(Matches NationalId, ''Please enter a valid NIN'')]),
     (''location'', [(IsLength 2, ''Location must be at least 2 characters''),
                     (Matches AlnumSpaces, ''Location must be alphanumeric'')]),
     (''contacts'', [(Matches Phone, ''Please enter a valid phone number'')]),
     (''amountDue'', [(IsFloat 10000, ''Amount due must be at least 10,000 UgX'')]),
     (''salesAgentName'', [(IsLength 2, ''Sales agent name must be at least 2 characters''),
                           (Matches AlnumSpaces, ''Sales agent name must be alphanumeric'')]),
     (''dueDate'', [(IsISO8601, ''Please enter a valid due date'')]),
     (''produceName'', [(NotEmpty, ''Produce name is required'')]),
     (''produceType'', [(NotEmpty, ''Produce type is required'')]),
     (''tonnage'', [(IsInt 1, ''Tonnage must be at least 1 kg'')])]"

section \<open>The record store (Mongoose models)\<close>

text \<open>
  \<^verbatim>\<open>src/src/models/Procurement.js\<close> and \<^verbatim>\<open>src/src/models/Sale.js\<close> declare the schemas.
  \<^verbatim>\<open>Model.create(data)\<close> casts every declared path of \<open>data\<close> to the type of the path,
  applies the setters (\<^verbatim>\<open>trim\<close>) and the defaults, validates (\<^verbatim>\<open>required\<close>, \<^verbatim>\<open>min\<close>,
  \<^verbatim>\<open>minlength\<close>, \<^verbatim>\<open>match\<close>, \<^verbatim>\<open>enum\<close>, \<^verbatim>\<open>validate\<close>) and inserts the document, or
  rejects without inserting. Paths that are not declared are dropped; the discriminator
  key and the version key of the data are not modelled. Dates are milliseconds since the
  epoch; an identity is the 24 hexadecimal digits of an ObjectId.
\<close>

type_synonym objectid = string

datatype 'a cast = CastError | Undefined | Null | Val 'a

definition js_trim :: "string \<Rightarrow> string" where
  "js_trim s = rev (dropWhile is_space (rev (dropWhile is_space s)))"

text \<open>The String type: numbers and booleans become their string; arrays and plain objects
  are refused, except that an object with a string \<^verbatim>\<open>_id\<close> stands for that string.\<close>

fun castString :: "jsval \<Rightarrow> string cast" where
  "castString JUndefined = Undefined"
| "castString JNull = Null"
| "castString (JStr s) = Val s"
| "castString (JNum x) = Val (number_string x)"
| "castString (JBool b) = Val (if b then ''true'' else ''false'')"
| "castString (JArr xs) = CastError"
| "castString (JObj kvs) = (case map_of kvs ''_id'' of Some (JStr s) \<Rightarrow> if s = [] then CastError else Val s | _ \<Rightarrow> CastError)"

text \<open>
  \<^verbatim>\<open>Number(s)\<close>: surrounding white space is dropped, the empty string is 0, then a
  literal \<^verbatim>\<open>0x\<close>, \<^verbatim>\<open>0o\<close> or \<^verbatim>\<open>0b\<close> with digits of its base, or a decimal literal.
  \<^verbatim>\<open>Infinity\<close> is outside the numbers of this model and reads as not a number.
\<close>

definition radix_of :: "char \<Rightarrow> int" where
  "radix_of c =
     (if c = CHR ''x'' \<or> c = CHR ''X'' then 16
      else if c = CHR ''o'' \<or> c = CHR ''O'' then 8
      else if c = CHR ''b'' \<or> c = CHR ''B'' then 2
      else 0)"

definition hex_value :: "char \<Rightarrow> int" where
  "hex_value c =
     (if is_digit c then char_code c - 48
      else if 97 \<le> char_code c \<and> char_code c \<le> 102 then char_code c - 87
      else if 65 \<le> char_code c \<and> char_code c \<le> 70 then char_code c - 55
      else 16)"

definition radix_literal :: "string \<Rightarrow> int option" where
  "radix_literal t =
     (case t of
        z # c # ds \<Rightarrow>
          if z = CHR ''0'' \<and> radix_of c \<noteq> 0 \<and> ds \<noteq> [] \<and>
             list_all (\<lambda>d. hex_value d < radix_of c) ds
          then Some (foldl (\<lambda>a d. radix_of c * a + hex_value d) 0 ds)
          else None
      | _ \<Rightarrow> None)"

definition string_to_number :: "string \<Rightarrow> rat option" where
  "string_to_number s =
     (let t = js_trim s
      in if t = [] then Some 0
         else (case radix_literal t of
                 Some n \<Rightarrow> Some (of_int n)
               | None \<Rightarrow> (case float_parts t of None \<Rightarrow> None | Some p \<Rightarrow> float_value p)))"

text \<open>The Number type: the empty string is \<^verbatim>\<open>null\<close>, other strings and booleans go through
  \<^verbatim>\<open>Number\<close>, arrays and objects are refused.\<close>

fun castNumber :: "jsval \<Rightarrow> rat cast" where
  "castNumber JUndefined = Undefined"
| "castNumber JNull = Null"
| "castNumber (JNum x) = Val x"
| "castNumber (JStr s) =
     (if s = [] then Null
      else (case string_to_number s of None \<Rightarrow> CastError | Some x \<Rightarrow> Val x))"
| "castNumber (JBool b) = Val (if b then 1 else 0)"
| "castNumber (JArr xs) = CastError"
| "castNumber (JObj kvs) = CastError"

text \<open>The Boolean type accepts exactly these values.\<close>

fun castBoolean :: "jsval \<Rightarrow> bool cast" where
  "castBoolean JUndefined = Undefined"
| "castBoolean JNull = Null"
| "castBoolean (JBool b) = Val b"
| "castBoolean (JNum x) = (if x = 1 then Val True else if x = 0 then Val False else CastError)"
| "castBoolean (JStr s) =
     (if s \<in> {''true'', ''1'', ''yes''} then Val True
      else if s \<in> {''false'', ''0'', ''no''} then Val False
      else CastError)"
| "castBoolean (JArr xs) = CastError"
| "castBoolean (JObj kvs) = CastError"

text \<open>
  The Date type: a number is a time value (truncated, at most \<open>8.64 * 10\<^sup>1\<^sup>5\<close> in magnitude),
  a string that reads as a number outside the range of years is one too, any other string
  goes through \<^verbatim>\<open>Date.parse\<close>; an array or object is converted to its string first.
\<close>

definition time_clip :: "rat \<Rightarrow> int cast" where
  "time_clip x =
     (if \<bar>x\<bar> \<le> 8640000000000000 then Val (if 0 \<le> x then \<lfloor>x\<rfloor> else - \<lfloor>- x\<rfloor>) else CastError)"

definition parse_date_string :: "platform \<Rightarrow> string \<Rightarrow> int cast" where
  "parse_date_string P s = (case date_parse P s of None \<Rightarrow> CastError | Some t \<Rightarrow> Val t)"

fun castDate :: "platform \<Rightarrow> jsval \<Rightarrow> int cast" where
  "castDate P JUndefined = Undefined"
| "castDate P JNull = Null"
| "castDate P (JBool b) = CastError"
| "castDate P (JNum x) = time_clip x"
| "castDate P (JStr s) =
     (if s = [] then Null
      else (case string_to_number s of
              Some x \<Rightarrow> if 275761 \<le> x \<or> x < - 271820 then time_clip x else parse_date_string P s
            | None \<Rightarrow> parse_date_string P s))"
| "castDate P (JArr xs) = parse_date_string P (js_string (JArr xs))"
| "castDate P (JObj kvs) = parse_date_string P (js_string (JObj kvs))"

text \<open>The ObjectId type: a string of 24 hexadecimal digits, read without regard to case.
  Some releases of the driver also read a string of 12 characters as the twelve bytes of
  an ObjectId; here such a string does not cast, and no statement below is about one.\<close>

definition is_hex :: "char \<Rightarrow> bool" where
  "is_hex c = (is_digit c \<or> (97 \<le> char_code c \<and> char_code c \<le> 102) \<or>
               (65 \<le> char_code c \<and> char_code c \<le> 70))"

definition lower_hex :: "char \<Rightarrow> char" where
  "lower_hex c = (if is_upper c then char_of (char_code c + 32) else c)"

definition castObjectId :: "string \<Rightarrow> objectid cast" where
  "castObjectId s = (if length s = 24 \<and> list_all is_hex s then Val (map lower_hex s) else CastError)"

subsection \<open>Documents\<close>

text \<open>Modelled from the spec: the User record (\<^verbatim>\<open>src/models/User.js\<close> is not among the
  sources); only what the routes read of it: identity, display name, email and role.\<close>

record user =
  u_id :: objectid
  u_name :: string
  u_email :: string
  u_role :: string

record procurement =
  p_id :: objectid
  p_produceName :: string
  p_produceType :: string
  p_date :: int
  p_time :: string
  p_tonnage :: rat
  p_cost :: rat
  p_dealerName :: string
  p_branch :: string
  p_contact :: string
  p_sellingPrice :: rat
  p_recordedBy :: objectid
  p_createdAt :: "int option"

record cash =
  cash_produceName :: string
  cash_tonnage :: rat
  cash_amountPaid :: rat
  cash_buyerName :: string
  cash_salesAgentName :: string
  cash_date :: int
  cash_time :: string

record credit =
  credit_buyerName :: string
  credit_nationalId :: string
  credit_location :: string
  credit_contacts :: string
  credit_amountDue :: rat
  credit_salesAgentName :: string
  credit_dueDate :: int
  credit_produceName :: string
  credit_produceType :: string
  credit_tonnage :: rat
  credit_dispatchDate :: int
  credit_isPaid :: "bool option"
  credit_paymentDate :: "int option"

text \<open>A sale is the base document (\<^verbatim>\<open>recordedBy\<close>, \<^verbatim>\<open>createdAt\<close>, and \<^verbatim>\<open>updatedAt\<close> from
  \<^verbatim>\<open>timestamps: true\<close>) with the fields of its discriminator \<^verbatim>\<open>saleType\<close>; a document of
  the base model itself has none (\<open>Plain\<close>).\<close>

datatype variant = Plain | Cash cash | Credit credit

record sale =
  s_id :: objectid
  s_recordedBy :: objectid
  s_createdAt :: int
  s_updatedAt :: int
  s_variant :: variant

record store =
  available :: bool
  users :: "user list"
  procurements :: "procurement list"
  sales :: "sale list"

text \<open>What a request reads from outside: the clock of the handler (\<^verbatim>\<open>new Date()\<close>), the
  clock of the store (\<^verbatim>\<open>Date.now\<close> of the defaults and timestamps) and the identity a
  new document gets.\<close>

record env =
  now :: int
  store_now :: int
  new_id :: objectid

text \<open>What a call can throw: the store is unreachable, a document fails its schema, an
  identity is taken, an identity does not cast, a name is not bound.\<close>

datatype thrown = StorageUnavailable | ValidationError | DuplicateKey | CastErrorId | ReferenceError

subsection \<open>Schema paths\<close>

text \<open>A required String path: cast, trim when the path says so, then \<^verbatim>\<open>required\<close> (the
  empty string fails it) and the validators of the path.\<close>

definition string_path :: "bool \<Rightarrow> (string \<Rightarrow> bool) \<Rightarrow> jsval \<Rightarrow> string option" where
  "string_path trim ok v =
     (case castString v of
        Val s \<Rightarrow> (let t = (if trim then js_trim s else s) in if t \<noteq> [] \<and> ok t then Some t else None)
      | _ \<Rightarrow> None)"

text \<open>\<^verbatim>\<open>Number.isInteger\<close>\<close>

definition isInteger :: "rat \<Rightarrow> bool" where
  "isInteger x = (of_int \<lfloor>x\<rfloor> = x)"

text \<open>A required Number path with its validators.\<close>

definition number_path :: "(rat \<Rightarrow> bool) \<Rightarrow> jsval \<Rightarrow> rat option" where
  "number_path ok v = (case castNumber v of Val x \<Rightarrow> if ok x then Some x else None | _ \<Rightarrow> None)"

text \<open>A required Date path whose default is \<^verbatim>\<open>Date.now\<close>: the default fills an
  \<^verbatim>\<open>undefined\<close> value only.\<close>

definition date_path :: "platform \<Rightarrow> int \<Rightarrow> jsval \<Rightarrow> int option" where
  "date_path P dflt v =
     (case castDate P v of Val t \<Rightarrow> Some t | Undefined \<Rightarrow> Some dflt | _ \<Rightarrow> None)"

text \<open>A Date path that is not required: \<^verbatim>\<open>null\<close> is stored as it is. The outer option
  is the validity, the inner one the stored value.\<close>

definition optional_date_path :: "platform \<Rightarrow> int option \<Rightarrow> jsval \<Rightarrow> int option option" where
  "optional_date_path P dflt v =
     (case castDate P v of
        Val t \<Rightarrow> Some (Some t) | Undefined \<Rightarrow> Some dflt | Null \<Rightarrow> Some None | CastError \<Rightarrow> None)"

text \<open>\<^verbatim>\<open>_id\<close>: a new identity unless the data bring their own, which must be a string
  that casts.\<close>

definition id_path :: "env \<Rightarrow> jsval \<Rightarrow> objectid option" where
  "id_path E v =
     (case v of
        JUndefined \<Rightarrow> Some (new_id E)
      | JStr s \<Rightarrow> (case castObjectId s of Val i \<Rightarrow> Some i | _ \<Rightarrow> None)
      | _ \<Rightarrow> None)"

text \<open>What the handlers hand to \<^verbatim>\<open>create\<close>: \<^verbatim>\<open>{...req.body, recordedBy: req.user._id,
  date: req.body.date || new Date()}\<close>. The date is the value of the body or a Date object.\<close>

datatype date_choice = Provided jsval | Fresh int

record create_data =
  cd_body :: jsobject
  cd_recordedBy :: objectid
  cd_date :: date_choice

definition chosen_date :: "platform \<Rightarrow> env \<Rightarrow> date_choice \<Rightarrow> int option" where
  "chosen_date P E d = (case d of Fresh t \<Rightarrow> Some t | Provided v \<Rightarrow> date_path P (store_now E) v)"

subsection \<open>The schemas\<close>

text \<open>\<^verbatim>\<open>procurementSchema\<close>, \<^verbatim>\<open>src/src/models/Procurement.js\<close> lines 3 to 80: the document
  \<^verbatim>\<open>new Procurement(data)\<close> holds if it validates.\<close>

definition procurement_doc :: "platform \<Rightarrow> env \<Rightarrow> create_data \<Rightarrow> procurement option" where
  "procurement_doc P E d =
     (let b = cd_body d in do {
        i \<leftarrow> id_path E (get_prop b ''_id'');
        produceName \<leftarrow> string_path True (regex_test AlnumSpaces) (get_prop b ''produceName'');
        produceType \<leftarrow> string_path True (\<lambda>s. 2 \<le> length s \<and> regex_test LettersSpaces s)
                         (get_prop b ''produceType'');
        date \<leftarrow> chosen_date P E (cd_date d);
        time \<leftarrow> string_path False (regex_test TimeHHMM) (get_prop b ''time'');
        tonnage \<leftarrow> number_path (\<lambda>x. 100 \<le> x \<and> isInteger x) (get_prop b ''tonnage'');
        cost \<leftarrow> number_path (\<lambda>x. 10000 \<le> x) (get_prop b ''cost'');
        dealerName \<leftarrow> string_path True (\<lambda>s. 2 \<le> length s \<and> regex_test AlnumSpaces s)
                        (get_prop b ''dealerName'');
        branch \<leftarrow> string_path False (\<lambda>s. s \<in> set [''Maganjo'', ''Matugga'']) (get_prop b ''branch'');
        contact \<leftarrow> string_path False (regex_test Phone) (get_prop b ''contact'');
        sellingPrice \<leftarrow> number_path (\<lambda>x. 1000 \<le> x) (get_prop b ''sellingPrice'');
        createdAt \<leftarrow> optional_date_path P (Some (store_now E)) (get_prop b ''createdAt'');
        Some \<lparr>p_id = i, p_produceName = produceName, p_produceType = produceType, p_date = date,
              p_time = time, p_tonnage = tonnage, p_cost = cost, p_dealerName = dealerName,
              p_branch = branch, p_contact = contact, p_sellingPrice = sellingPrice,
              p_recordedBy = cd_recordedBy d, p_createdAt = createdAt\<rparr>
      })"

text \<open>The Cash discriminator, \<^verbatim>\<open>src/src/models/Sale.js\<close> lines 23 to 68.\<close>

definition cash_doc :: "platform \<Rightarrow> env \<Rightarrow> create_data \<Rightarrow> cash option" where
  "cash_doc P E d =
     (let b = cd_body d in do {
        produceName \<leftarrow> string_path True (\<lambda>s. True) (get_prop b ''produceName'');
        tonnage \<leftarrow> number_path (\<lambda>x. 1 \<le> x) (get_prop b ''tonnage'');
        amountPaid \<leftarrow> number_path (\<lambda>x. 10000 \<le> x) (get_prop b ''amountPaid'');
        buyerName \<leftarrow> string_path True (\<lambda>s. 2 \<le> length s \<and> regex_test AlnumSpaces s)
                       (get_prop b ''buyerName'');
        salesAgentName \<leftarrow> string_path True (\<lambda>s. 2 \<le> length s \<and> regex_test AlnumSpaces s)
                            (get_prop b ''salesAgentName'');
        date \<leftarrow> chosen_date P E (cd_date d);
        time \<leftarrow> string_path False (regex_test TimeHHMM) (get_prop b ''time'');
        Some \<lparr>cash_produceName = produceName, cash_tonnage = tonnage, cash_amountPaid = amountPaid,
              cash_buyerName = buyerName, cash_salesAgentName = salesAgentName, cash_date = date,
              cash_time = time\<rparr>
      })"

text \<open>The Boolean path \<^verbatim>\<open>isPaid\<close> with default \<^verbatim>\<open>false\<close>, not required.\<close>

definition isPaid_path :: "jsval \<Rightarrow> bool option option" where
  "isPaid_path v =
     (case castBoolean v of
        Val b \<Rightarrow> Some (Some b) | Undefined \<Rightarrow> Some (Some False) | Null \<Rightarrow> Some None
      | CastError \<Rightarrow> None)"

text \<open>The Credit discriminator, \<^verbatim>\<open>src/src/models/Sale.js\<close> lines 71 to 139. The handler
  chooses \<^verbatim>\<open>dispatchDate\<close>; \<^verbatim>\<open>paymentDate\<close> has no default.\<close>

definition credit_doc :: "platform \<Rightarrow> env \<Rightarrow> create_data \<Rightarrow> credit option" where
  "credit_doc P E d =
     (let b = cd_body d in do {
        buyerName \<leftarrow> string_path True (\<lambda>s. 2 \<le> length s \<and> regex_test AlnumSpaces s)
                       (get_prop b ''buyerName'');
        nationalId \<leftarrow> string_path False (regex_test NationalId) (get_prop b ''nationalId'');
        location \<leftarrow> string_path True (\<lambda>s. 2 \<le> length s \<and> regex_test AlnumSpaces s)
                      (get_prop b ''location'');
        contacts \<leftarrow> string_path False (regex_test Phone) (get_prop b ''contacts'');
        amountDue \<leftarrow> number_path (\<lambda>x. 10000 \<le> x) (get_prop b ''amountDue'');
        salesAgentName \<leftarrow> string_path True (\<lambda>s. 2 \<le> length s \<and> regex_test AlnumSpaces s)
                            (get_prop b ''salesAgentName'');
        dueDate \<leftarrow> (case castDate P (get_prop b ''dueDate'') of Val t \<Rightarrow> Some t | _ \<Rightarrow> None);
        produceName \<leftarrow> string_path True (\<lambda>s. True) (get_prop b ''produceName'');
        produceType \<leftarrow> string_path True (\<lambda>s. True) (get_prop b ''produceType'');
        tonnage \<leftarrow> number_path (\<lambda>x. 1 \<le> x) (get_prop b ''tonnage'');
        dispatchDate \<leftarrow> chosen_date P E (cd_date d);
        isPaid \<leftarrow> isPaid_path (get_prop b ''isPaid'');
        paymentDate \<leftarrow> optional_date_path P None (get_prop b ''paymentDate'');
        Some \<lparr>credit_buyerName = buyerName, credit_nationalId = nationalId,
              credit_location = location, credit_contacts = contacts, credit_amountDue = amountDue,
              credit_salesAgentName = salesAgentName, credit_dueDate = dueDate,
              credit_produceName = produceName, credit_produceType = produceType,
              credit_tonnage = tonnage, credit_dispatchDate = dispatchDate, credit_isPaid = isPaid,
              credit_paymentDate = paymentDate\<rparr>
      })"

text \<open>The base schema \<^verbatim>\<open>saleSchema\<close>, lines 4 to 17: \<^verbatim>\<open>createdAt\<close> defaults to
  \<^verbatim>\<open>Date.now\<close>, and with \<^verbatim>\<open>timestamps: true\<close> a new document that has no
  \<^verbatim>\<open>createdAt\<close> gets the current time and its \<^verbatim>\<open>updatedAt\<close> is its \<^verbatim>\<open>createdAt\<close>.\<close>

definition sale_doc :: "platform \<Rightarrow> env \<Rightarrow> create_data \<Rightarrow> variant option \<Rightarrow> sale option" where
  "sale_doc P E d vo =
     (let b = cd_body d in do {
        i \<leftarrow> id_path E (get_prop b ''_id'');
        v \<leftarrow> vo;
        createdAt \<leftarrow> optional_date_path P (Some (store_now E)) (get_prop b ''createdAt'');
        updatedAt \<leftarrow> optional_date_path P None (get_prop b ''updatedAt'');
        let created = (case createdAt of None \<Rightarrow> store_now E | Some t \<Rightarrow> t);
        Some \<lparr>s_id = i, s_recordedBy = cd_recordedBy d, s_createdAt = created,
              s_updatedAt = created, s_variant = v\<rparr>
      })"

subsection \<open>Store operations\<close>

text \<open>\<^verbatim>\<open>Procurement.create(data)\<close>: the document is validated first; an insert needs the
  store and an identity that is not taken.\<close>

definition Procurement_create ::
  "platform \<Rightarrow> env \<Rightarrow> store \<Rightarrow> create_data \<Rightarrow> thrown + procurement \<times> store" where
  "Procurement_create P E st d =
     (case procurement_doc P E d of
        None \<Rightarrow> Inl ValidationError
      | Some doc \<Rightarrow>
          if \<not> available st then Inl StorageUnavailable
          else if p_id doc \<in> set (map p_id (procurements st)) then Inl DuplicateKey
          else Inr (doc, st\<lparr>procurements := procurements st @ [doc]\<rparr>))"

text \<open>The three models of \<^verbatim>\<open>src/src/models/Sale.js\<close> share one collection. A discriminator
  model creates documents of its variant and sees only those.\<close>

datatype model = SaleModel | CashSaleModel | CreditSaleModel

definition variant_doc :: "platform \<Rightarrow> env \<Rightarrow> model \<Rightarrow> create_data \<Rightarrow> variant option" where
  "variant_doc P E m d =
     (case m of
        SaleModel \<Rightarrow> Some Plain
      | CashSaleModel \<Rightarrow> map_option Cash (cash_doc P E d)
      | CreditSaleModel \<Rightarrow> map_option Credit (credit_doc P E d))"

definition model_create ::
  "platform \<Rightarrow> env \<Rightarrow> store \<Rightarrow> model \<Rightarrow> create_data \<Rightarrow> thrown + sale \<times> store" where
  "model_create P E st m d =
     (case sale_doc P E d (variant_doc P E m d) of
        None \<Rightarrow> Inl ValidationError
      | Some doc \<Rightarrow>
          if \<not> available st then Inl StorageUnavailable
          else if s_id doc \<in> set (map s_id (sales st)) then Inl DuplicateKey
          else Inr (doc, st\<lparr>sales := sales st @ [doc]\<rparr>))"

fun in_model :: "model \<Rightarrow> sale \<Rightarrow> bool" where
  "in_model SaleModel s = True"
| "in_model CashSaleModel s = (case s_variant s of Cash c \<Rightarrow> True | _ \<Rightarrow> False)"
| "in_model CreditSaleModel s = (case s_variant s of Credit c \<Rightarrow> True | _ \<Rightarrow> False)"

definition saleType :: "sale \<Rightarrow> string option" where
  "saleType s = (case s_variant s of Plain \<Rightarrow> None | Cash c \<Rightarrow> Some ''Cash'' | Credit c \<Rightarrow> Some ''Credit'')"

text \<open>\<^verbatim>\<open>.populate('recordedBy', 'name email')\<close>: the user the reference points to, reduced
  to identity, name and email; \<^verbatim>\<open>null\<close> when there is no such user.\<close>

record user_view =
  v_id :: objectid
  v_name :: string
  v_email :: string

definition populate :: "store \<Rightarrow> objectid \<Rightarrow> user_view option" where
  "populate st uid =
     map_option (\<lambda>u. \<lparr>v_id = u_id u, v_name = u_name u, v_email = u_email u\<rparr>)
       (find (\<lambda>u. u_id u = uid) (users st))"

text \<open>\<^verbatim>\<open>.sort({ createdAt: -1 })\<close>: newest first, a missing date last; documents of equal
  date keep the order of the collection here (the store leaves it open).\<close>

definition older :: "int option \<Rightarrow> int option \<Rightarrow> bool" where
  "older a b =
     (case b of None \<Rightarrow> False | Some y \<Rightarrow> (case a of None \<Rightarrow> True | Some x \<Rightarrow> x < y))"

fun insert_desc :: "('a \<Rightarrow> int option) \<Rightarrow> 'a \<Rightarrow> 'a list \<Rightarrow> 'a list" where
  "insert_desc k x [] = [x]"
| "insert_desc k x (y # ys) = (if older (k x) (k y) then y # insert_desc k x ys else x # y # ys)"

definition sort_desc :: "('a \<Rightarrow> int option) \<Rightarrow> 'a list \<Rightarrow> 'a list" where
  "sort_desc k xs = foldr (insert_desc k) xs []"

definition Procurement_find :: "store \<Rightarrow> thrown + (procurement \<times> user_view option) list" where
  "Procurement_find st =
     (if \<not> available st then Inl StorageUnavailable
      else Inr (map (\<lambda>p. (p, populate st (p_recordedBy p))) (sort_desc p_createdAt (procurements st))))"

definition model_find ::
  "store \<Rightarrow> model \<Rightarrow> string option \<Rightarrow> thrown + (sale \<times> user_view option) list" where
  "model_find st m ty =
     (if \<not> available st then Inl StorageUnavailable
      else Inr (map (\<lambda>s. (s, populate st (s_recordedBy s)))
             (sort_desc (\<lambda>s. Some (s_createdAt s))
                (filter (\<lambda>s. in_model m s \<and> (case ty of None \<Rightarrow> True | Some t \<Rightarrow> saleType s = Some t))
                   (sales st)))))"

text \<open>\<^verbatim>\<open>findById(id)\<close> casts the string of the route to an ObjectId, which throws when it
  is not one, and yields the document or \<^verbatim>\<open>null\<close>.\<close>

definition Procurement_findById :: "store \<Rightarrow> string \<Rightarrow> thrown + procurement option" where
  "Procurement_findById st i =
     (case castObjectId i of
        Val oid \<Rightarrow> if \<not> available st then Inl StorageUnavailable
                   else Inr (find (\<lambda>p. p_id p = oid) (procurements st))
      | _ \<Rightarrow> Inl CastErrorId)"

definition model_findById :: "store \<Rightarrow> model \<Rightarrow> string \<Rightarrow> thrown + sale option" where
  "model_findById st m i =
     (case castObjectId i of
        Val oid \<Rightarrow> if \<not> available st then Inl StorageUnavailable
                   else Inr (find (\<lambda>s. s_id s = oid \<and> in_model m s) (sales st))
      | _ \<Rightarrow> Inl CastErrorId)"

text \<open>\<^verbatim>\<open>doc.save()\<close> of a document read from the store: when a path was changed, the
  timestamps set \<^verbatim>\<open>updatedAt\<close> to the current time and the document replaces the stored
  one of its identity; when nothing was changed, nothing is written.\<close>

definition save :: "env \<Rightarrow> store \<Rightarrow> sale \<Rightarrow> sale \<Rightarrow> thrown + sale \<times> store" where
  "save E st old new =
     (if new = old then Inr (new, st)
      else if \<not> available st then Inl StorageUnavailable
      else (let doc = new\<lparr>s_updatedAt := store_now E\<rparr>
            in Inr (doc, st\<lparr>sales := map (\<lambda>s. if s_id s = s_id doc then doc else s) (sales st)\<rparr>)))"

section \<open>The routes\<close>

subsection \<open>Requests, responses and what a request leaves behind\<close>

record request =
  credential :: "string option"
  req_body :: jsobject
  param_id :: string
  query_type :: "string option"

datatype doc = ProcurementDoc procurement | SaleDoc sale

text \<open>The JSON a route sends: \<^verbatim>\<open>{ errors: [...] }\<close>, \<^verbatim>\<open>{ error: message }\<close>,
  \<^verbatim>\<open>{ success: true, data }\<close> with a document (its \<^verbatim>\<open>recordedBy\<close> populated or not),
  \<^verbatim>\<open>{ success: true, count, data: [...] }\<close>, and the two refusals of the guard.\<close>

datatype payload =
    Unauthenticated
  | Forbidden
  | ErrorList "verror list"
  | ErrorMessage string
  | Data doc
  | DataPopulated doc "user_view option"
  | DataList nat "(doc \<times> user_view option) list"

record response =
  r_status :: nat
  r_payload :: payload

text \<open>The steps a request went through, in order. \<open>Persist\<close> stands for every call of the
  store by a handler, reads included.\<close>

datatype stage = Authenticate | Authorize | Validate | DefaultFill | Persist

record outcome =
  out_response :: response
  out_store :: store
  out_trace :: "stage list"

definition respond :: "nat \<Rightarrow> payload \<Rightarrow> store \<Rightarrow> stage list \<Rightarrow> outcome" where
  "respond st_code p st tr =
     \<lparr>out_response = \<lparr>r_status = st_code, r_payload = p\<rparr>, out_store = st, out_trace = tr\<rparr>"

text \<open>The \<^verbatim>\<open>catch\<close> of every handler: \<^verbatim>\<open>res.status(500).json({ error: 'Server error' })\<close>.\<close>

definition server_error :: "store \<Rightarrow> stage list \<Rightarrow> outcome" where
  "server_error st tr = respond 500 (ErrorMessage ''Server error'') st tr"

subsection \<open>The guard\<close>

text \<open>Modelled from the spec: \<^verbatim>\<open>protect\<close> of \<^verbatim>\<open>src/middleware/auth.js\<close>, which is not among
  the sources. Given a bearer credential it resolves it to a User or fails with
  Unauthenticated; the resolved user is attached to the request.\<close>

definition protect :: "platform \<Rightarrow> store \<Rightarrow> request \<Rightarrow> user option" where
  "protect P st req =
     (case credential req of
        None \<Rightarrow> None
      | Some token \<Rightarrow>
          (case verify_token P token of
             None \<Rightarrow> None
           | Some uid \<Rightarrow> find (\<lambda>u. u_id u = uid) (users st)))"

text \<open>Modelled from the spec: \<^verbatim>\<open>authorize(...roles)\<close> of the same file. Given a resolved
  User and the roles an operation allows, it fails with Forbidden when the role of the
  user is not among them.\<close>

definition authorize :: "string list \<Rightarrow> user \<Rightarrow> bool" where
  "authorize roles u = (u_role u \<in> set roles)"

text \<open>Express runs the middleware of a route in the order written: \<^verbatim>\<open>protect\<close>, then
  \<^verbatim>\<open>authorize\<close> where the route has one, then the validation chains, then the handler.
  A middleware that answers ends the request. \<open>guarded\<close> is that composition; the
  handler receives the user and the trace so far.\<close>

definition guarded ::
  "platform \<Rightarrow> store \<Rightarrow> request \<Rightarrow> string list option \<Rightarrow> (user \<Rightarrow> stage list \<Rightarrow> outcome) \<Rightarrow> outcome" where
  "guarded P st req roles handler =
     (case protect P st req of
        None \<Rightarrow> respond 401 Unauthenticated st [Authenticate]
      | Some u \<Rightarrow>
          (case roles of
             None \<Rightarrow> handler u [Authenticate]
           | Some rs \<Rightarrow>
               if authorize rs u then handler u [Authenticate, Authorize]
               else respond 403 Forbidden st [Authenticate, Authorize]))"

subsection \<open>Procurement routes\<close>

text \<open>\<^verbatim>\<open>req.body.date || new Date()\<close>\<close>

definition or_new_date :: "jsval \<Rightarrow> env \<Rightarrow> date_choice" where
  "or_new_date v E = (if truthy v then Provided v else Fresh (now E))"

text \<open>The handler of \<^verbatim>\<open>POST /\<close>, \<^verbatim>\<open>procurementRoutes.js\<close> lines 91 to 114. \<open>errs\<close> is what
  the chains found.\<close>

definition procurement_data :: "env \<Rightarrow> user \<Rightarrow> jsobject \<Rightarrow> create_data" where
  "procurement_data E u body =
     \<lparr>cd_body = body, cd_recordedBy = u_id u, cd_date = or_new_date (get_prop body ''date'') E\<rparr>"

definition post_procurement_handler ::
  "platform \<Rightarrow> env \<Rightarrow> store \<Rightarrow> jsobject \<Rightarrow> user \<Rightarrow> stage list \<Rightarrow> outcome" where
  "post_procurement_handler P E st body u tr =
     (let errs = validationResult P procurement_chains body in
      if errs \<noteq> [] then respond 400 (ErrorList errs) st (tr @ [Validate])
      else (case Procurement_create P E st (procurement_data E u body) of
              Inl e \<Rightarrow> server_error st (tr @ [Validate, DefaultFill, Persist])
            | Inr (d, st') \<Rightarrow>
                respond 201 (Data (ProcurementDoc d)) st' (tr @ [Validate, DefaultFill, Persist])))"

definition post_procurement :: "platform \<Rightarrow> env \<Rightarrow> store \<Rightarrow> request \<Rightarrow> outcome" where
  "post_procurement P E st req =
     guarded P st req (Some [''Manager'']) (post_procurement_handler P E st (req_body req))"

text \<open>\<^verbatim>\<open>GET /\<close>, lines 130 to 145.\<close>

definition get_procurements :: "platform \<Rightarrow> store \<Rightarrow> request \<Rightarrow> outcome" where
  "get_procurements P st req =
     guarded P st req None (\<lambda>u tr.
       (case Procurement_find st of
          Inl e \<Rightarrow> server_error st (tr @ [Persist])
        | Inr ps \<Rightarrow>
            respond 200 (DataList (length ps) (map (\<lambda>(p, v). (ProcurementDoc p, v)) ps)) st
              (tr @ [Persist])))"

text \<open>\<^verbatim>\<open>GET /:id\<close>, lines 167 to 184.\<close>

definition get_procurement :: "platform \<Rightarrow> store \<Rightarrow> request \<Rightarrow> outcome" where
  "get_procurement P st req =
     guarded P st req None (\<lambda>u tr.
       (case Procurement_findById st (param_id req) of
          Inl e \<Rightarrow> server_error st (tr @ [Persist])
        | Inr None \<Rightarrow> respond 404 (ErrorMessage ''Procurement record not found'') st (tr @ [Persist])
        | Inr (Some p) \<Rightarrow>
            respond 200 (DataPopulated (ProcurementDoc p) (populate st (p_recordedBy p))) st
              (tr @ [Persist])))"

subsection \<open>Sales routes\<close>

text \<open>
  \<^verbatim>\<open>src/src/models/Sale.js\<close> line 141 exports \<^verbatim>\<open>{ Sale, CashSale, CreditSale }\<close>;
  \<^verbatim>\<open>src/src/routes/salesRoutes.js\<close> line 11 binds
  \<^verbatim>\<open>const { CashSale, CreditSale } = require('../models/Sale')\<close>. A handler that names a
  model evaluates the identifier in the scope of its module; an identifier with no binding
  throws a ReferenceError, which the \<^verbatim>\<open>try\<close> of the handler catches.
\<close>

definition sale_exports :: "(string \<times> model) list" where
  "sale_exports = [(''Sale'', SaleModel), (''CashSale'', CashSaleModel), (''CreditSale'', CreditSaleModel)]"

definition salesRoutes_bindings :: "(string \<times> model) list" where
  "salesRoutes_bindings = filter (\<lambda>b. fst b \<in> set [''CashSale'', ''CreditSale'']) sale_exports"

definition resolve :: "string \<Rightarrow> thrown + model" where
  "resolve name = (case map_of salesRoutes_bindings name of None \<Rightarrow> Inl ReferenceError | Some m \<Rightarrow> Inr m)"

text \<open>Sequencing of calls that may throw.\<close>

definition and_then :: "thrown + 'a \<Rightarrow> ('a \<Rightarrow> thrown + 'b) \<Rightarrow> thrown + 'b" where
  "and_then r f = (case r of Inl e \<Rightarrow> Inl e | Inr x \<Rightarrow> f x)"

text \<open>The handlers of \<^verbatim>\<open>POST /cash\<close> (lines 77 to 100) and \<^verbatim>\<open>POST /credit\<close> (lines 183
  to 206); they differ in the chains, the model and the name of the date.\<close>

definition sale_data :: "string \<Rightarrow> env \<Rightarrow> user \<Rightarrow> jsobject \<Rightarrow> create_data" where
  "sale_data date_key E u body =
     \<lparr>cd_body = body, cd_recordedBy = u_id u, cd_date = or_new_date (get_prop body date_key) E\<rparr>"

definition post_sale_handler ::
  "chain list \<Rightarrow> string \<Rightarrow> string \<Rightarrow> platform \<Rightarrow> env \<Rightarrow> store \<Rightarrow> jsobject \<Rightarrow> user \<Rightarrow> stage list \<Rightarrow> outcome" where
  "post_sale_handler chs model_name date_key P E st body u tr =
     (let errs = validationResult P chs body in
      if errs \<noteq> [] then respond 400 (ErrorList errs) st (tr @ [Validate])
      else (case and_then (resolve model_name)
                   (\<lambda>m. model_create P E st m (sale_data date_key E u body)) of
              Inl e \<Rightarrow> server_error st (tr @ [Validate, DefaultFill, Persist])
            | Inr (d, st') \<Rightarrow>
                respond 201 (Data (SaleDoc d)) st' (tr @ [Validate, DefaultFill, Persist])))"

definition post_cash :: "platform \<Rightarrow> env \<Rightarrow> store \<Rightarrow> request \<Rightarrow> outcome" where
  "post_cash P E st req =
     guarded P st req (Some [''Sales Agent'', ''Manager''])
       (post_sale_handler cash_chains ''CashSale'' ''date'' P E st (req_body req))"

definition post_credit :: "platform \<Rightarrow> env \<Rightarrow> store \<Rightarrow> request \<Rightarrow> outcome" where
  "post_credit P E st req =
     guarded P st req (Some [''Sales Agent'', ''Manager''])
       (post_sale_handler credit_chains ''CreditSale'' ''dispatchDate'' P E st (req_body req))"

text \<open>\<^verbatim>\<open>GET /\<close>, lines 229 to 250: \<^verbatim>\<open>query.saleType\<close> is set when \<^verbatim>\<open>req.query.type\<close> is
  truthy, then \<^verbatim>\<open>Sale.find(query)\<close> is populated and sorted.\<close>

definition type_filter :: "string option \<Rightarrow> string option" where
  "type_filter ty = (case ty of None \<Rightarrow> None | Some t \<Rightarrow> if t = [] then None else Some t)"

definition get_sales :: "platform \<Rightarrow> store \<Rightarrow> request \<Rightarrow> outcome" where
  "get_sales P st req =
     guarded P st req None (\<lambda>u tr.
       (case and_then (resolve ''Sale'') (\<lambda>m. model_find st m (type_filter (query_type req))) of
          Inl e \<Rightarrow> server_error st (tr @ [Persist])
        | Inr ss \<Rightarrow>
            respond 200 (DataList (length ss) (map (\<lambda>(s, v). (SaleDoc s, v)) ss)) st
              (tr @ [Persist])))"

text \<open>\<^verbatim>\<open>PATCH /credit/:id/payment\<close>, lines 272 to 292.\<close>

definition mark_paid :: "env \<Rightarrow> sale \<Rightarrow> sale" where
  "mark_paid E s =
     (case s_variant s of
        Credit c \<Rightarrow> s\<lparr>s_variant := Credit (c\<lparr>credit_isPaid := Some True,
                                               credit_paymentDate := Some (now E)\<rparr>)\<rparr>
      | _ \<Rightarrow> s)"

definition patch_payment :: "platform \<Rightarrow> env \<Rightarrow> store \<Rightarrow> request \<Rightarrow> outcome" where
  "patch_payment P E st req =
     guarded P st req None (\<lambda>u tr.
       (case and_then (resolve ''CreditSale'') (\<lambda>m. model_findById st m (param_id req)) of
          Inl e \<Rightarrow> server_error st (tr @ [Persist])
        | Inr None \<Rightarrow> respond 404 (ErrorMessage ''Credit sale not found'') st (tr @ [Persist])
        | Inr (Some s) \<Rightarrow>
            (case save E st s (mark_paid E s) of
               Inl e \<Rightarrow> server_error st (tr @ [Persist])
             | Inr (d, st') \<Rightarrow> respond 200 (Data (SaleDoc d)) st' (tr @ [Persist]))))"

subsection \<open>The router\<close>

text \<open>\<^verbatim>\<open>src/src/app.js\<close> lines 62 and 63 mount the two routers; these are their
  endpoints.\<close>

datatype endpoint =
    PostProcurement
  | GetProcurements
  | GetProcurement
  | PostCash
  | PostCredit
  | GetSales
  | PatchPayment

fun route :: "endpoint \<Rightarrow> platform \<Rightarrow> env \<Rightarrow> store \<Rightarrow> request \<Rightarrow> outcome" where
  "route PostProcurement P E st req = post_procurement P E st req"
| "route GetProcurements P E st req = get_procurements P st req"
| "route GetProcurement P E st req = get_procurement P st req"
| "route PostCash P E st req = post_cash P E st req"
| "route PostCredit P E st req = post_credit P E st req"
| "route GetSales P E st req = get_sales P st req"
| "route PatchPayment P E st req = patch_payment P E st req"

definition creation :: "endpoint \<Rightarrow> bool" where
  "creation ep = (ep = PostProcurement \<or> ep = PostCash \<or> ep = PostCredit)"


fun stored :: "store \<Rightarrow> doc \<Rightarrow> bool" where
  "stored st (ProcurementDoc p) = (p \<in> set (procurements st))"
| "stored st (SaleDoc s) = (s \<in> set (sales st))"

text \<open>Per creation endpoint: the chains of its route, the date its handler fills in,
  and where that date ends up in the document.\<close>

fun chains_of :: "endpoint \<Rightarrow> chain list" where
  "chains_of PostProcurement = procurement_chains"
| "chains_of PostCash = cash_chains"
| "chains_of PostCredit = credit_chains"
| "chains_of ep = []"

fun date_key :: "endpoint \<Rightarrow> string" where
  "date_key PostCredit = ''dispatchDate''"
| "date_key ep = ''date''"


text \<open>A tonnage the procurement route takes for an integer of at least 100: a number, or a
  string that spells one.\<close>

fun acceptable_tonnage :: "jsval \<Rightarrow> bool" where
  "acceptable_tonnage (JNum x) = (isInteger x \<and> 100 \<le> x)"
| "acceptable_tonnage (JStr s) = (int_literal s \<and> 100 \<le> int_literal_value s)"
| "acceptable_tonnage v = False"

fun is_array :: "jsval \<Rightarrow> bool" where
  "is_array (JArr xs) = True"
| "is_array v = False"

text \<open>A value that is no integer of at least 100: absent, \<^verbatim>\<open>null\<close>, a boolean, an
  object, a number below 100 or with a fraction, or a string that does not spell such an
  integer. Where the library reads an element of an array and meets an array again, it
  takes the string of that inner array, its elements joined by commas.\<close>

fun as_read :: "jsval \<Rightarrow> jsval" where
  "as_read (JArr xs) = JStr (js_string (JArr xs))"
| "as_read v = v"

definition refused_element :: "jsval \<Rightarrow> bool" where
  "refused_element v = (\<not> acceptable_tonnage (as_read v))"

text \<open>The tonnages for which the claim is proved: such a value, or an array that the
  installed release judges by such a value. Release 6 reads an array by its first
  element and an empty array as the empty string; release 7 reads every element.\<close>

fun refused_tonnage :: "ev_release \<Rightarrow> jsval \<Rightarrow> bool" where
  "refused_tonnage Release6 (JArr []) = True"
| "refused_tonnage Release6 (JArr (x # xs)) = refused_element x"
| "refused_tonnage Release7 (JArr xs) = list_ex refused_element xs"
| "refused_tonnage rel v = refused_element v"

definition tonnage_error :: "jsval \<Rightarrow> verror" where
  "tonnage_error v =
     \<lparr>err_value = v, err_msg = ''Tonnage must be at least 100 kg'', err_path = ''tonnage'',
      err_location = ''body''\<rparr>"

text \<open>The amount of a sale: \<^verbatim>\<open>amountPaid\<close> of a cash sale, \<^verbatim>\<open>amountDue\<close> of a credit sale,
  and the entry their chain leaves for a value it refuses.\<close>

fun amount_key :: "endpoint \<Rightarrow> string" where
  "amount_key PostCredit = ''amountDue''"
| "amount_key ep = ''amountPaid''"

definition amount_error :: "endpoint \<Rightarrow> jsval \<Rightarrow> verror" where
  "amount_error ep v =
     \<lparr>err_value = v,
      err_msg = (if ep = PostCredit then ''Amount due must be at least 10,000 UgX''
                 else ''Amount paid must be at least 10,000 UgX''),
      err_path = amount_key ep, err_location = ''body''\<rparr>"

text \<open>The steps an endpoint has: all five for a creation, the guard and the store call for
  the reads and for the payment.\<close>

definition pipeline :: "endpoint \<Rightarrow> stage list" where
  "pipeline ep =
     (if creation ep then [Authenticate, Authorize, Validate, DefaultFill, Persist]
      else [Authenticate, Persist])"

text \<open>A request kept the order of the steps: its trace is a prefix of the pipeline of
  its endpoint, and a refusal by the guard (401, 403) or by validation (400) is the last
  step it took and leaves the store as it was.\<close>

definition ordered :: "endpoint \<Rightarrow> store \<Rightarrow> outcome \<Rightarrow> bool" where
  "ordered ep st out =
     (prefix (out_trace out) (pipeline ep) \<and>
      (r_status (out_response out) = 401 \<longrightarrow> out_trace out = [Authenticate] \<and> out_store out = st) \<and>
      (r_status (out_response out) = 403 \<longrightarrow>
         out_trace out = [Authenticate, Authorize] \<and> out_store out = st) \<and>
      (r_status (out_response out) = 400 \<longrightarrow>
         out_trace out = [Authenticate, Authorize, Validate] \<and> out_store out = st))"

text \<open>The roles \<^verbatim>\<open>authorize\<close> is called with on the creation routes.\<close>

fun roles_of :: "endpoint \<Rightarrow> string list" where
  "roles_of PostProcurement = [''Manager'']"
| "roles_of ep = [''Sales Agent'', ''Manager'']"









text \<open>The payment state of a sale, as the response shows it.\<close>

fun sale_isPaid :: "sale \<Rightarrow> bool option" where
  "sale_isPaid s = (case s_variant s of Credit c \<Rightarrow> credit_isPaid c | _ \<Rightarrow> None)"

fun sale_paymentDate :: "sale \<Rightarrow> int option" where
  "sale_paymentDate s = (case s_variant s of Credit c \<Rightarrow> credit_paymentDate c | _ \<Rightarrow> None)"

text \<open>The store a request leaves behind, on which the next request runs.\<close>

definition store_after :: "endpoint \<Rightarrow> platform \<Rightarrow> env \<Rightarrow> store \<Rightarrow> request \<Rightarrow> store" where
  "store_after ep P E st req = out_store (route ep P E st req)"

text \<open>The credit sale of an identity, as \<^verbatim>\<open>CreditSale.findById\<close> finds it.\<close>

definition credit_sale_of :: "store \<Rightarrow> objectid \<Rightarrow> sale option" where
  "credit_sale_of st oid = find (\<lambda>s. s_id s = oid \<and> in_model CreditSaleModel s) (sales st)"

text \<open>A sale with its payment state and its \<^verbatim>\<open>updatedAt\<close> blanked: two sales that agree
  on it differ in \<^verbatim>\<open>isPaid\<close>, \<^verbatim>\<open>paymentDate\<close> and \<^verbatim>\<open>updatedAt\<close> at most.\<close>

definition without_payment :: "sale \<Rightarrow> sale" where
  "without_payment s =
     s\<lparr>s_updatedAt := 0,
       s_variant := (case s_variant s of
                       Credit c \<Rightarrow> Credit (c\<lparr>credit_isPaid := None, credit_paymentDate := None\<rparr>)
                     | v \<Rightarrow> v)\<rparr>"

text \<open>What a request on endpoint \<open>ep\<close> may have done to a stored sale \<open>s\<close>, now \<open>s'\<close>:
  nothing, or, on the payment route and for the sale the route names, a change of its
  payment state.\<close>

definition kept :: "endpoint \<Rightarrow> request \<Rightarrow> sale \<Rightarrow> sale \<Rightarrow> bool" where
  "kept ep req s s' =
     (s' = s \<or>
      (ep = PatchPayment \<and> castObjectId (param_id req) = Val (s_id s) \<and>
       without_payment s' = without_payment s))"

text \<open>What a request may have done to the store: users and availability as before, the
  procurements and the sales of before still there, in place, each sale kept in the sense
  above, anything new appended; identities stay unique.\<close>

definition framed :: "endpoint \<Rightarrow> request \<Rightarrow> store \<Rightarrow> store \<Rightarrow> bool" where
  "framed ep req st st' =
     (users st' = users st \<and> available st' = available st \<and>
      prefix (procurements st) (procurements st') \<and>
      length (sales st) \<le> length (sales st') \<and>
      list_all2 (kept ep req) (sales st) (take (length (sales st)) (sales st')) \<and>
      distinct (map s_id (sales st')))"

subsection \<open>A running example\<close>

text \<open>A platform with release 7 of the validation library whose tokens are the identities
  themselves, the same platform with release 6, a manager and a sales agent, and the
  request body of the specification's example.\<close>

definition example_platform :: platform where
  "example_platform =
     \<lparr>release = Release7,
      iso8601 = (\<lambda>s. s = ''2026-12-31''),
      date_parse = (\<lambda>s. if s = ''2026-12-31'' then Some 1798675200000 else None),
      verify_token = (\<lambda>t. Some t)\<rparr>"

definition older_platform :: platform where
  "older_platform = example_platform\<lparr>release := Release6\<rparr>"

definition manager :: user where
  "manager = \<lparr>u_id = ''aaaaaaaaaaaaaaaaaaaaaaaa'', u_name = ''Mary'', u_email = ''mary@karibu.com'',
              u_role = ''Manager''\<rparr>"

definition agent :: user where
  "agent = \<lparr>u_id = ''bbbbbbbbbbbbbbbbbbbbbbbb'', u_name = ''Sam'', u_email = ''sam@karibu.com'',
            u_role = ''Sales Agent''\<rparr>"

definition example_env :: env where
  "example_env = \<lparr>now = 1000, store_now = 1001, new_id = ''0123456789abcdef01234567''\<rparr>"

definition empty_store :: store where
  "empty_store = \<lparr>available = True, users = [manager, agent], procurements = [], sales = []\<rparr>"

definition example_body :: jsobject where
  "example_body =
     [(''produceName'', JStr ''Maize''), (''produceType'', JStr ''Cereal''),
      (''time'', JStr ''14:30''), (''tonnage'', JNum 150), (''cost'', JNum 500000),
      (''dealerName'', JStr ''John Doe''), (''branch'', JStr ''Maganjo''),
      (''contact'', JStr ''0771234567''), (''sellingPrice'', JNum 2000)]"

definition request_by :: "user \<Rightarrow> jsobject \<Rightarrow> request" where
  "request_by u body = \<lparr>credential = Some (u_id u), req_body = body, param_id = [], query_type = None\<rparr>"

definition example_procurement :: procurement where
  "example_procurement =
     \<lparr>p_id = ''0123456789abcdef01234567'', p_produceName = ''Maize'', p_produceType = ''Cereal'',
      p_date = 1000, p_time = ''14:30'', p_tonnage = 150, p_cost = 500000,
      p_dealerName = ''John Doe'', p_branch = ''Maganjo'', p_contact = ''0771234567'',
      p_sellingPrice = 2000, p_recordedBy = ''aaaaaaaaaaaaaaaaaaaaaaaa'',
      p_createdAt = Some 1001\<rparr>"

definition anonymous :: "jsobject \<Rightarrow> request" where
  "anonymous body = \<lparr>credential = None, req_body = body, param_id = [], query_type = None\<rparr>"

definition example_cash_body :: jsobject where
  "example_cash_body =
     [(''produceName'', JStr ''Maize''), (''tonnage'', JNum 5), (''amountPaid'', JNum 25000),
      (''buyerName'', JStr ''Jane Roe''), (''salesAgentName'', JStr ''Sam''),
      (''time'', JStr ''09:15'')]"

definition example_credit_body :: jsobject where
  "example_credit_body =
     [(''buyerName'', JStr ''Jane Roe''), (''nationalId'', JStr ''CM12345678ABCD''),
      (''location'', JStr ''Kampala''), (''contacts'', JStr ''0771234567''),
      (''amountDue'', JNum 50000), (''salesAgentName'', JStr ''Sam''),
      (''dueDate'', JStr ''2026-12-31''), (''produceName'', JStr ''Maize''),
      (''produceType'', JStr ''Cereal''), (''tonnage'', JNum 5)]"

definition example_credit :: credit where
  "example_credit =
     \<lparr>credit_buyerName = ''Jane Roe'', credit_nationalId = ''CM12345678ABCD'',
      credit_location = ''Kampala'', credit_contacts = ''0771234567'', credit_amountDue = 50000,
      credit_salesAgentName = ''Sam'', credit_dueDate = 1798675200000,
      credit_produceName = ''Maize'', credit_produceType = ''Cereal'', credit_tonnage = 5,
      credit_dispatchDate = 1000, credit_isPaid = Some False, credit_paymentDate = None\<rparr>"

definition example_sale :: sale where
  "example_sale =
     \<lparr>s_id = ''0123456789abcdef01234567'', s_recordedBy = ''bbbbbbbbbbbbbbbbbbbbbbbb'',
      s_createdAt = 1001, s_updatedAt = 1001, s_variant = Credit example_credit\<rparr>"

definition credit_store :: store where
  "credit_store = empty_store\<lparr>sales := [example_sale]\<rparr>"

definition payment_request :: "user \<Rightarrow> string \<Rightarrow> request" where
  "payment_request u i = \<lparr>credential = Some (u_id u), req_body = [], param_id = i, query_type = None\<rparr>"

definition later_env :: env where
  "later_env = \<lparr>now = 2000, store_now = 2001, new_id = ''0123456789abcdef01234568''\<rparr>"

definition latest_env :: env where
  "latest_env = \<lparr>now = 3000, store_now = 3001, new_id = ''0123456789abcdef01234569''\<rparr>"

section \<open>Properties\<close>

subsection \<open>Basic facts\<close>

lemma respond_simps [simp]:
  "r_status (out_response (respond c p st tr)) = c"
  "r_payload (out_response (respond c p st tr)) = p"
  "out_store (respond c p st tr) = st"
  "out_trace (respond c p st tr) = tr"
  "out_response (respond c p st tr) = \<lparr>r_status = c, r_payload = p\<rparr>"
  by (simp_all add: respond_def)

lemma get_prop_Cons: "get_prop ((k, v) # b) k' = (if k' = k then v else get_prop b k')"
  by (simp add: get_prop_def)



lemma protect_body [simp]: "protect P st (req\<lparr>req_body := b\<rparr>) = protect P st req"
  by (simp add: protect_def)

lemma resolve_Sale: "resolve ''Sale'' = Inl ReferenceError"
  by (simp add: resolve_def salesRoutes_bindings_def sale_exports_def)


lemma resolve_CreditSale: "resolve ''CreditSale'' = Inr CreditSaleModel"
  by (simp add: resolve_def salesRoutes_bindings_def sale_exports_def)



lemma credit_doc_fields:
  assumes "credit_doc P E d = Some c"
  shows "chosen_date P E (cd_date d) = Some (credit_dispatchDate c)"
    and "number_path (\<lambda>x. 10000 \<le> x) (get_prop (cd_body d) ''amountDue'') =
           Some (credit_amountDue c)"
    and "isPaid_path (get_prop (cd_body d) ''isPaid'') = Some (credit_isPaid c)"
    and "optional_date_path P None (get_prop (cd_body d) ''paymentDate'') =
           Some (credit_paymentDate c)"
  using assms
  by (auto simp: credit_doc_def Let_def bind_eq_Some_conv)

lemma sale_doc_fields:
  assumes "sale_doc P E d vo = Some s"
  shows "s_recordedBy s = cd_recordedBy d" and "vo = Some (s_variant s)"
  using assms
  by (auto simp: sale_doc_def Let_def bind_eq_Some_conv)

text \<open>Decimal digits: printing and reading are inverse, and a string with a character
  that is neither a digit nor a sign is no integer literal.\<close>

lemma digit_char_cases:
  assumes "0 \<le> d" "d < 10"
  shows "d \<in> {0, 1, 2, 3, 4, 5, 6, 7, 8, 9 :: int}"
  using assms by simp presburger

lemma digit_char_props:
  "is_digit (digit_char d)" "digit_value (digit_char d) = d mod 10"
proof -
  have "d mod 10 \<in> {0, 1, 2, 3, 4, 5, 6, 7, 8, 9 :: int}"
    by (rule digit_char_cases) simp_all
  then show "is_digit (digit_char d)" "digit_value (digit_char d) = d mod 10"
    by (auto simp: digit_char_def is_digit_def digit_value_def char_code_def)
qed

lemma digits_value_snoc: "digits_value (s @ [c]) = 10 * digits_value s + digit_value c"
  by (simp add: digits_value_def)

lemma nat_digits_all_digits: "list_all is_digit (nat_digits n)"
  by (induction n rule: nat_digits.induct) (subst nat_digits.simps, simp add: digit_char_props)

lemma nat_digits_not_empty: "nat_digits n \<noteq> []"
  by (subst nat_digits.simps) simp

lemma digits_value_nat_digits: "0 \<le> n \<Longrightarrow> digits_value (nat_digits n) = n"
proof (induction n rule: nat_digits.induct)
  case (1 n)
  show ?case
  proof (cases "n < 10")
    case True
    with 1 show ?thesis
      by (subst nat_digits.simps) (simp add: digits_value_def digit_char_props)
  next
    case False
    with 1 have "digits_value (nat_digits (n div 10)) = n div 10" by simp
    with False show ?thesis
      by (subst nat_digits.simps) (simp add: digits_value_snoc digit_char_props)
  qed
qed

lemma digits_value_nonneg: "list_all is_digit s \<Longrightarrow> 0 \<le> digits_value s"
proof (induction s rule: rev_induct)
  case Nil
  then show ?case by (simp add: digits_value_def)
next
  case (snoc c s)
  then show ?case
    by (simp add: digits_value_snoc digit_value_def is_digit_def)
qed


lemma digit_not_sign: "is_digit c \<Longrightarrow> c \<noteq> CHR ''-'' \<and> c \<noteq> CHR ''+'' \<and> c \<noteq> CHR ''.'' \<and> c \<noteq> CHR ''e''"
  by (auto simp: is_digit_def char_code_def)

lemma split_sign_digits: "list_all is_digit s \<Longrightarrow> split_sign s = (False, s)"
  by (cases s) (auto dest: digit_not_sign)

lemma split_sign_subset: "split_sign s = (neg, ds) \<Longrightarrow> c \<in> set s \<Longrightarrow> c \<noteq> CHR ''-'' \<Longrightarrow> c \<noteq> CHR ''+'' \<Longrightarrow> c \<in> set ds"
  by (cases s) (auto split: if_splits)

lemma not_int_literal:
  assumes "c \<in> set s" "\<not> is_digit c" "c \<noteq> CHR ''-''" "c \<noteq> CHR ''+''"
  shows "\<not> int_literal s"
proof
  assume "int_literal s"
  then obtain neg ds where sp: "split_sign s = (neg, ds)" and all: "list_all is_digit ds"
    by (auto simp: int_literal_def split: prod.splits)
  from split_sign_subset [OF sp assms(1) assms(3) assms(4)] all assms(2) show False
    by (simp add: list_all_iff)
qed

lemma e_not_digit: "\<not> is_digit (CHR ''e'')" "\<not> is_digit (CHR ''.'')"
  by (simp_all add: is_digit_def char_code_def)

lemma isInt_negative:
  assumes "isInt m (CHR ''-'' # s)" shows "m \<le> 0"
proof -
  from assms have a: "list_all is_digit s" and b: "m \<le> - of_int (digits_value s)"
    by (simp_all add: isInt_def int_literal_def int_literal_value_def signed_def)
  from digits_value_nonneg [OF a] have "(0::rat) \<le> of_int (digits_value s)"
    by simp
  with b show ?thesis by linarith
qed

lemma isInt_magnitude:
  assumes "isInt m (magnitude_string a)" and "0 < m" and "0 \<le> a"
  shows "isInteger a \<and> m \<le> a"
proof -
  consider "a = 0" | "a \<noteq> 0" "10 ^ 21 \<le> a" | "a \<noteq> 0" "\<not> 10 ^ 21 \<le> a" "a < 1 / 10 ^ 6"
    | "a \<noteq> 0" "\<not> 10 ^ 21 \<le> a" "\<not> a < 1 / 10 ^ 6"
    by blast
  then show ?thesis
  proof cases
    case 1
    with assms show ?thesis
      by (simp add: magnitude_string_def isInt_def int_literal_value_def digits_value_def
            digit_value_def char_code_def signed_def)
  next
    case 2
    then have "CHR ''e'' \<in> set (magnitude_string a)"
      by (simp add: magnitude_string_def Let_def)
    from not_int_literal [OF this] assms(1) show ?thesis
      by (simp add: isInt_def e_not_digit)
  next
    case 3
    then have "CHR ''e'' \<in> set (magnitude_string a)"
      by (simp add: magnitude_string_def Let_def)
    from not_int_literal [OF this] assms(1) show ?thesis
      by (simp add: isInt_def e_not_digit)
  next
    case 4
    then have ms: "magnitude_string a = plain_string a"
      by (simp add: magnitude_string_def)
    show ?thesis
    proof (cases "a = of_int \<lfloor>a\<rfloor>")
      case True
      then have ps: "plain_string a = nat_digits \<lfloor>a\<rfloor>"
        by (simp add: plain_string_def)
      have fl: "0 \<le> \<lfloor>a\<rfloor>" using assms(3) by simp
      from assms(1) have "m \<le> of_int (digits_value (nat_digits \<lfloor>a\<rfloor>))"
        by (simp add: ms ps isInt_def int_literal_value_def
              split_sign_digits [OF nat_digits_all_digits] signed_def)
      with True fl show ?thesis
        by (simp add: digits_value_nat_digits isInteger_def)
    next
      case False
      then have "CHR ''.'' \<in> set (magnitude_string a)"
        by (simp add: ms plain_string_def)
      from not_int_literal [OF this] assms(1) show ?thesis
        by (simp add: isInt_def e_not_digit)
    qed
  qed
qed

lemma isInt_number_string:
  assumes "isInt m (number_string x)" and "0 < m"
  shows "isInteger x \<and> m \<le> x"
proof (cases "x < 0")
  case True
  with assms isInt_negative [of m "magnitude_string (- x)"] show ?thesis
    by (simp add: number_string_def)
next
  case False
  with assms isInt_magnitude [of m x] show ?thesis
    by (simp add: number_string_def)
qed

text \<open>The float validator on the rendering of a number: what \<^verbatim>\<open>parseFloat\<close> reads back
  is not above the number once it reaches an integer bound.\<close>

lemma digits_value_bound: "list_all is_digit s \<Longrightarrow> digits_value s < 10 ^ length s"
proof (induction s rule: rev_induct)
  case Nil
  then show ?case by (simp add: digits_value_def)
next
  case (snoc c s)
  then have "digits_value s < 10 ^ length s" and "digit_value c \<le> 9"
    by (simp_all add: digit_value_def is_digit_def)
  then show ?case
    by (simp add: digits_value_snoc)
qed

lemma frac_digits_all_digits: "list_all is_digit (frac_digits k r)"
  by (induction k r rule: frac_digits.induct) (simp_all add: digit_char_props)

lemma takeWhile_digits_stop:
  assumes "list_all is_digit ds" and "t = [] \<or> \<not> is_digit (hd t)"
  shows "takeWhile is_digit (ds @ t) = ds" and "dropWhile is_digit (ds @ t) = t"
  using assms by (cases t; simp add: list_all_iff takeWhile_append2 dropWhile_append2)+

lemma fraction_below_one:
  assumes "list_all is_digit fs"
  shows "(of_int (digits_value fs) :: rat) / 10 ^ length fs < 1"
proof -
  from digits_value_bound [OF assms]
  have "(of_int (digits_value fs) :: rat) < of_int (10 ^ length fs)"
    by (simp only: of_int_less_iff)
  then show ?thesis by simp
qed

lemma fraction_nonneg:
  assumes "list_all is_digit fs"
  shows "0 \<le> (of_int (digits_value fs) :: rat) / 10 ^ length fs"
  using digits_value_nonneg [OF assms] by simp


lemma split_sign_digit_head:
  assumes "list_all is_digit ds" and "ds \<noteq> []"
  shows "split_sign (ds @ t) = (False, ds @ t)"
  using assms by (cases ds) (auto dest: digit_not_sign)

lemma float_parts_plain:
  assumes "list_all is_digit ds" and "ds \<noteq> []"
    and "ex = [] \<or> hd ex = CHR ''e''"
  shows "float_parts (ds @ ex) = map_option (\<lambda>e. (False, ds, [], e)) (exponent_part ex)"
proof -
  from assms(3) have stop: "ex = [] \<or> \<not> is_digit (hd ex)"
    by (auto simp: e_not_digit)
  from assms(3) have nodot: "ex = [] \<or> hd ex \<noteq> CHR ''.''"
    by auto
  have r1: "(case ex of [] \<Rightarrow> [] | c # cs \<Rightarrow> if c = CHR ''.'' then takeWhile is_digit cs else []) = []"
    using nodot by (cases ex) auto
  have r2: "(case ex of [] \<Rightarrow> [] | c # cs \<Rightarrow> if c = CHR ''.'' then dropWhile is_digit cs
               else dropWhile is_digit (ds @ ex)) = ex"
    using nodot takeWhile_digits_stop(2) [OF assms(1) stop] by (cases ex) auto
  show ?thesis
    by (simp add: float_parts_def split_sign_digit_head [OF assms(1,2)]
          takeWhile_digits_stop [OF assms(1) stop] r1 r2 Let_def split: option.split)
qed

lemma float_parts_fraction:
  assumes "list_all is_digit ds" and "ds \<noteq> []" and "list_all is_digit fs"
    and "ex = [] \<or> hd ex = CHR ''e''"
  shows "float_parts (ds @ CHR ''.'' # fs @ ex) =
           map_option (\<lambda>e. (False, ds, fs, e)) (exponent_part ex)"
proof -
  from assms(4) have stop: "ex = [] \<or> \<not> is_digit (hd ex)"
    by (auto simp: e_not_digit)
  have stop': "CHR ''.'' # fs @ ex = [] \<or> \<not> is_digit (hd (CHR ''.'' # fs @ ex))"
    by (simp add: e_not_digit)
  show ?thesis
    by (simp add: float_parts_def split_sign_digit_head [OF assms(1,2)]
          takeWhile_digits_stop [OF assms(1) stop'] takeWhile_digits_stop [OF assms(3) stop]
          Let_def split: option.split)
qed

lemma exponent_part_negative:
  "0 \<le> n \<Longrightarrow> exponent_part (CHR ''e'' # CHR ''-'' # nat_digits n) = Some (- n)"
  by (simp add: exponent_part_def nat_digits_not_empty nat_digits_all_digits
        digits_value_nat_digits)


lemma float_parts_plain_string:
  assumes "ex = [] \<or> hd ex = CHR ''e''"
  shows "\<exists>fs. list_all is_digit fs \<and> (b = of_int \<lfloor>b\<rfloor> \<longrightarrow> fs = []) \<and>
           float_parts (plain_string b @ ex) =
             map_option (\<lambda>e. (False, nat_digits \<lfloor>b\<rfloor>, fs, e)) (exponent_part ex)"
proof (cases "b = of_int \<lfloor>b\<rfloor>")
  case True
  then have "plain_string b = nat_digits \<lfloor>b\<rfloor>"
    by (simp add: plain_string_def)
  with float_parts_plain [OF nat_digits_all_digits nat_digits_not_empty assms, of "\<lfloor>b\<rfloor>"]
  show ?thesis by (intro exI [of _ "[]"]) simp
next
  case False
  let ?fs = "frac_digits fraction_limit (b - of_int \<lfloor>b\<rfloor>)"
  from False have "plain_string b @ ex = nat_digits \<lfloor>b\<rfloor> @ CHR ''.'' # ?fs @ ex"
    by (simp add: plain_string_def)
  with float_parts_fraction [OF nat_digits_all_digits nat_digits_not_empty
        frac_digits_all_digits assms, of "\<lfloor>b\<rfloor>" fraction_limit "b - of_int \<lfloor>b\<rfloor>"] False
  show ?thesis
    by (intro exI [of _ ?fs]) (simp add: frac_digits_all_digits)
qed

lemma float_parts_digits:
  assumes "float_parts s = Some (neg, ip, fp, e)"
  shows "list_all is_digit ip" and "list_all is_digit fp" and "neg = fst (split_sign s)"
  using assms
  by (auto simp: float_parts_def Let_def list_all_iff
        split: prod.splits option.splits list.splits if_splits dest: set_takeWhileD)

lemma scale10_nonneg: "0 \<le> x \<Longrightarrow> 0 \<le> scale10 x e"
  by (simp add: scale10_def)

lemma scale10_negative: "scale10 x (- int n) = x / 10 ^ n"
proof (cases n)
  case 0
  then show ?thesis by (simp add: scale10_def)
next
  case (Suc k)
  then have "nat (int n) = n" and "\<not> 0 \<le> - int n" by simp_all
  then show ?thesis by (simp add: scale10_def)
qed

lemma isFloat_negative:
  assumes "isFloat m (CHR ''-'' # s)" shows "m \<le> 0"
proof -
  from assms obtain p v where p: "float_parts (CHR ''-'' # s) = Some p"
    and v: "float_value p = Some v" and mv: "m \<le> v"
    by (auto simp: isFloat_def split: option.splits)
  obtain neg ip fp e where pp: "p = (neg, ip, fp, e)"
    by (cases p) auto
  from float_parts_digits [OF p [unfolded pp]]
  have d: "list_all is_digit ip" "list_all is_digit fp" and n: "neg"
    by simp_all
  have "0 \<le> (of_int (digits_value ip) :: rat) + of_int (digits_value fp) / 10 ^ length fp"
    using digits_value_nonneg [OF d(1)] fraction_nonneg [OF d(2)] by simp
  from scale10_nonneg [OF this, of e] v n have "v \<le> 0"
    by (auto simp: pp float_value_def signed_def split: if_splits)
  with mv show ?thesis by simp
qed


text \<open>The value read back from the plain rendering of \<open>b\<close>, scaled by an exponent: between
  the floor of \<open>b\<close> and one above it, and \<open>b\<close> itself when \<open>b\<close> is an integer.\<close>

lemma isFloat_plain_string:
  assumes "isFloat m (plain_string b @ ex)" and "0 \<le> b" and "ex = [] \<or> hd ex = CHR ''e''"
  obtains e f where "exponent_part ex = Some e" and "0 \<le> f" and "f < 1"
    and "b = of_int \<lfloor>b\<rfloor> \<longrightarrow> f = 0"
    and "m \<le> scale10 (of_int \<lfloor>b\<rfloor> + f) e"
proof -
  from float_parts_plain_string [OF assms(3), of b] obtain fs where
    fs: "list_all is_digit fs" "b = of_int \<lfloor>b\<rfloor> \<longrightarrow> fs = []"
    and fp: "float_parts (plain_string b @ ex) =
               map_option (\<lambda>e. (False, nat_digits \<lfloor>b\<rfloor>, fs, e)) (exponent_part ex)"
    by blast
  from assms(1) fp obtain e where e: "exponent_part ex = Some e"
    by (auto simp: isFloat_def split: option.splits)
  let ?f = "(of_int (digits_value fs) :: rat) / 10 ^ length fs"
  have fl: "0 \<le> \<lfloor>b\<rfloor>" using assms(2) by simp
  from assms(1) fp e have "m \<le> scale10 (of_int \<lfloor>b\<rfloor> + ?f) e"
    by (simp add: isFloat_def float_value_def nat_digits_not_empty signed_def
          digits_value_nat_digits [OF fl])
  moreover have "b = of_int \<lfloor>b\<rfloor> \<longrightarrow> ?f = 0"
    using fs(2) by (simp add: digits_value_def)
  ultimately show thesis
    using that [OF e fraction_nonneg [OF fs(1)] fraction_below_one [OF fs(1)]] by blast
qed

lemma isFloat_magnitude:
  assumes "isFloat (of_int k) (magnitude_string a)" and "0 \<le> a" and "2 \<le> k" and "k \<le> 10 ^ 21"
  shows "of_int k \<le> a"
proof -
  consider "a = 0" | "a \<noteq> 0" "10 ^ 21 \<le> a" | "a \<noteq> 0" "\<not> 10 ^ 21 \<le> a" "a < 1 / 10 ^ 6"
    | "a \<noteq> 0" "\<not> 10 ^ 21 \<le> a" "\<not> a < 1 / 10 ^ 6"
    by blast
  then show ?thesis
  proof cases
    case 1
    with assms(1,3) show ?thesis
      by (simp add: magnitude_string_def isFloat_def float_parts_def exponent_part_def
            float_value_def digits_value_def digit_value_def char_code_def signed_def scale10_def
            is_digit_def)
  next
    case 2
    from assms(4) have "(of_int k :: rat) \<le> of_int (10 ^ 21)"
      by (simp only: of_int_le_iff)
    with 2 show ?thesis by simp
  next
    case 3
    let ?n = "small_exponent 400 a"
    let ?b = "a * 10 ^ ?n"
    from 3 have ms: "magnitude_string a = plain_string ?b @ ''e-'' @ nat_digits (int ?n)"
      by (simp add: magnitude_string_def Let_def)
    have b0: "0 \<le> ?b" using assms(2) by simp
    from assms(1) [unfolded ms] b0 obtain e f where
      e: "exponent_part (''e-'' @ nat_digits (int ?n)) = Some e" and f: "0 \<le> f" "f < 1"
      and le: "of_int k \<le> scale10 (of_int \<lfloor>?b\<rfloor> + f) e"
      by (rule isFloat_plain_string) simp
    from e have e': "e = - int ?n"
      by (simp add: exponent_part_negative)
    have "of_int \<lfloor>?b\<rfloor> + f \<le> ?b + 1"
      using f(2) of_int_floor_le [of ?b] by linarith
    then have "(of_int \<lfloor>?b\<rfloor> + f) / 10 ^ ?n \<le> (?b + 1) / 10 ^ ?n"
      by (simp add: divide_right_mono)
    also have "\<dots> = a + 1 / 10 ^ ?n"
      by (simp add: add_divide_distrib)
    also have "\<dots> \<le> a + 1"
      by (simp add: divide_le_eq_1)
    also have "\<dots> < 2"
      using 3(3) by simp
    finally have "scale10 (of_int \<lfloor>?b\<rfloor> + f) e < 2"
      by (simp add: scale10_negative e')
    with le have "(of_int k :: rat) < of_int 2" by simp
    then have "k < 2" by (simp only: of_int_less_iff)
    with assms(3) show ?thesis by simp
  next
    case 4
    then have ms: "magnitude_string a = plain_string a @ []"
      by (simp add: magnitude_string_def)
    from assms(1) [unfolded ms] assms(2) obtain e f where
      e: "exponent_part [] = Some e" and f: "0 \<le> f" "f < 1"
      and fi: "a = of_int \<lfloor>a\<rfloor> \<longrightarrow> f = 0"
      and le: "of_int k \<le> scale10 (of_int \<lfloor>a\<rfloor> + f) e"
      by (rule isFloat_plain_string) simp
    from e have "e = 0" by (simp add: exponent_part_def)
    with le have le': "(of_int k :: rat) \<le> of_int \<lfloor>a\<rfloor> + f"
      by (simp add: scale10_def)
    with f(2) have "(of_int k :: rat) < of_int (\<lfloor>a\<rfloor> + 1)" by simp
    then have "k < \<lfloor>a\<rfloor> + 1" by (simp only: of_int_less_iff)
    then have "k \<le> \<lfloor>a\<rfloor>" by simp
    then show ?thesis by (simp add: le_floor_iff)
  qed
qed

lemma isFloat_number_string:
  assumes "isFloat (of_int k) (number_string x)" and "2 \<le> k" and "k \<le> 10 ^ 21"
  shows "of_int k \<le> x"
proof (cases "x < 0")
  case True
  with assms(1) isFloat_negative [of "of_int k" "magnitude_string (- x)"] assms(2)
  show ?thesis by (simp add: number_string_def)
next
  case False
  with assms isFloat_magnitude [of k x] show ?thesis
    by (simp add: number_string_def)
qed

text \<open>A value that is no array is validated as it is, in both releases.\<close>

lemma scalar_validated:
  "\<not> is_array v \<Longrightarrow> values_of rel v = [v]"
  "\<not> is_array v \<Longrightarrow> ev_toString rel v = ev_toString_inner v"
  by (cases rel; cases v; simp)+

text \<open>Every validator that fails on a value of a field leaves its entry in the result.\<close>

lemma violation_reported:
  assumes "(field, rules) \<in> set chs" and "(r, m) \<in> set rules"
    and "e \<in> set (values_of (release P) (get_prop body field))"
    and "\<not> rule_ok P r (ev_toString (release P) e)"
  shows "\<lparr>err_value = e, err_msg = m, err_path = field, err_location = ''body''\<rparr>
           \<in> set (validationResult P chs body)"
proof -
  from assms(3,4)
  have "\<lparr>err_value = e, err_msg = m, err_path = field, err_location = ''body''\<rparr>
          \<in> set (run_rule P field (get_prop body field) (r, m))"
    by (force simp: run_rule_def)
  with assms(2)
  have "\<lparr>err_value = e, err_msg = m, err_path = field, err_location = ''body''\<rparr>
          \<in> set (run_chain P body (field, rules))"
    by (force simp: run_chain_def)
  with assms(1) show ?thesis
    by (force simp: validationResult_def)
qed




lemma post_sale_created:
  assumes "r_status (out_response (guarded P st req (Some rs)
             (post_sale_handler chs name key P E st (req_body req)))) = 201"
    and "resolve name = Inr m"
  obtains u d where "protect P st req = Some u" and "authorize rs u"
    and "validationResult P chs (req_body req) = []"
    and "sale_doc P E (sale_data key E u (req_body req))
           (variant_doc P E m (sale_data key E u (req_body req))) = Some d"
    and "available st" and "s_id d \<notin> set (map s_id (sales st))"
    and "guarded P st req (Some rs) (post_sale_handler chs name key P E st (req_body req)) =
           respond 201 (Data (SaleDoc d)) (st\<lparr>sales := sales st @ [d]\<rparr>)
             [Authenticate, Authorize, Validate, DefaultFill, Persist]"
  using assms
  by (auto simp: guarded_def post_sale_handler_def Let_def and_then_def
        model_create_def server_error_def
        split: option.splits if_splits sum.splits)



text \<open>A creation route refuses at the step that fails.\<close>

lemma refused_by_validation:
  assumes "creation ep" and "protect P st req = Some u" and "authorize (roles_of ep) u"
    and "validationResult P (chains_of ep) (req_body req) \<noteq> []"
  shows "route ep P E st req =
           respond 400 (ErrorList (validationResult P (chains_of ep) (req_body req))) st
             [Authenticate, Authorize, Validate]"
  using assms
  by (auto simp: creation_def post_procurement_def post_cash_def post_credit_def guarded_def
        post_procurement_handler_def post_sale_handler_def Let_def)

lemma refused_by_role:
  assumes "creation ep" and "protect P st req = Some u" and "\<not> authorize (roles_of ep) u"
  shows "route ep P E st req = respond 403 Forbidden st [Authenticate, Authorize]"
  using assms
  by (auto simp: creation_def post_procurement_def post_cash_def post_credit_def guarded_def)





subsection \<open>Listing the sales\<close>

text \<open>
  Claim C1. An authenticated \<^verbatim>\<open>GET /sales\<close> should answer 200 with the count and the
  list of the sales, newest first. The handler names \<^verbatim>\<open>Sale\<close>, which its module never
  binds: whatever the store holds and whatever \<^verbatim>\<open>type\<close> is asked for, the request of
  an authenticated user ends in the \<^verbatim>\<open>catch\<close> with 500 and \<^verbatim>\<open>Server error\<close>, also
  when the store is available; without a valid credential it is refused with 401.
\<close>

theorem get_sales_never_lists:
  "out_response (get_sales P st req) =
     (case protect P st req of
        None \<Rightarrow> \<lparr>r_status = 401, r_payload = Unauthenticated\<rparr>
      | Some u \<Rightarrow> \<lparr>r_status = 500, r_payload = ErrorMessage ''Server error''\<rparr>)"
  by (simp add: get_sales_def guarded_def resolve_Sale and_then_def server_error_def respond_def
           split: option.split)

subsection \<open>Who recorded a transaction\<close>



subsection \<open>The default of the date\<close>




text \<open>A truthy value is not checked by the route: the number 5 is accepted as a date and
  stored as the time value 5.\<close>

lemma unvalidated_date_example:
  "out_response (route PostProcurement example_platform example_env empty_store
     (request_by manager ((''date'', JNum 5) # example_body))) =
   \<lparr>r_status = 201, r_payload = Data (ProcurementDoc (example_procurement\<lparr>p_date := 5\<rparr>))\<rparr>"
  by code_simp

subsection \<open>The tonnage of a procurement\<close>

lemma unacceptable_tonnage:
  assumes "refused_element v"
  shows "\<not> isInt 100 (ev_toString_inner v)"
proof (cases v)
  case (JNum x)
  with assms isInt_number_string [of 100 x] show ?thesis
    by (auto simp: refused_element_def)
next
  case (JBool b)
  then show ?thesis
    by (cases b) (simp_all add: isInt_def int_literal_def is_digit_def char_code_def)
next
  case (JObj kvs)
  then show ?thesis
    by (simp add: isInt_def int_literal_def is_digit_def char_code_def)
qed (use assms in \<open>simp_all add: refused_element_def isInt_def int_literal_def\<close>)

text \<open>A refused tonnage has a value the validator runs on and fails.\<close>

lemma refused_tonnage_fails:
  assumes "refused_tonnage rel v"
  obtains w where "w \<in> set (values_of rel v)" and "\<not> isInt 100 (ev_toString rel w)"
proof (cases "is_array v")
  case False
  with assms have "refused_element v"
    by (cases rel; cases v) simp_all
  from unacceptable_tonnage [OF this] False show thesis
    by (intro that [of v]) (simp_all add: scalar_validated)
next
  case True
  then obtain xs where v: "v = JArr xs"
    by (cases v) simp_all
  show thesis
  proof (cases rel)
    case Release6
    show thesis
    proof (cases xs)
      case Nil
      with v Release6 show thesis
        by (intro that [of v]) (simp_all add: join_comma_def isInt_def int_literal_def)
    next
      case (Cons x ys)
      with assms v Release6 have "refused_element x"
        by simp
      from unacceptable_tonnage [OF this] v Release6 Cons show thesis
        by (intro that [of v]) simp_all
    qed
  next
    case Release7
    with assms v obtain x where x: "x \<in> set xs" "refused_element x"
      by (auto simp: list_ex_iff)
    with unacceptable_tonnage [OF x(2)] v Release7 show thesis
      by (intro that [of x]) simp_all
  qed
qed

lemma tonnage_reported:
  assumes "refused_tonnage (release P) (get_prop body ''tonnage'')"
  obtains w where "w \<in> set (values_of (release P) (get_prop body ''tonnage''))"
    and "tonnage_error w \<in> set (validationResult P procurement_chains body)"
proof -
  from assms obtain w where w: "w \<in> set (values_of (release P) (get_prop body ''tonnage''))"
    and f: "\<not> isInt 100 (ev_toString (release P) w)"
    by (rule refused_tonnage_fails)
  have 1: "(''tonnage'', [(IsInt 100, ''Tonnage must be at least 100 kg'')]) \<in> set procurement_chains"
    by (simp add: procurement_chains_def)
  have 3: "\<not> rule_ok P (IsInt 100) (ev_toString (release P) w)"
    using f by simp
  from violation_reported [OF 1 _ w 3, of "''Tonnage must be at least 100 kg''"]
  have "tonnage_error w \<in> set (validationResult P procurement_chains body)"
    by (simp add: tonnage_error_def)
  with w show thesis
    by (rule that)
qed

text \<open>
  Claim C3, as amended. A manager posts a procurement whose tonnage is no array and no
  integer of at least 100 (it is absent, \<^verbatim>\<open>null\<close>, a boolean, an object, a number below
  100 or with a fraction, or a string that does not spell such an integer), or whose
  tonnage is an array that the installed release of the validation library judges by such
  a value (release 6: the array is empty or its first element is such a value; release 7:
  one of its elements is; an element that is an array again counts as the string of its
  elements): the route answers 400, the violation of the field \<^verbatim>\<open>tonnage\<close> is among
  the errors with the value the validator ran on, the store is unchanged and the request
  ends after validation, before \<^verbatim>\<open>create\<close>.
\<close>

theorem tonnage_violation:
  assumes "protect P st req = Some u" and "authorize [''Manager''] u"
    and "refused_tonnage (release P) (get_prop (req_body req) ''tonnage'')"
  shows "\<exists>errs w. out_response (route PostProcurement P E st req) =
                    \<lparr>r_status = 400, r_payload = ErrorList errs\<rparr> \<and>
                  w \<in> set (values_of (release P) (get_prop (req_body req) ''tonnage'')) \<and>
                  tonnage_error w \<in> set errs \<and>
                  out_store (route PostProcurement P E st req) = st \<and>
                  out_trace (route PostProcurement P E st req) = [Authenticate, Authorize, Validate]"
proof -
  let ?errs = "validationResult P procurement_chains (req_body req)"
  from assms(3) obtain w where
    w: "w \<in> set (values_of (release P) (get_prop (req_body req) ''tonnage''))"
    and e: "tonnage_error w \<in> set ?errs"
    by (rule tonnage_reported)
  from e have "?errs \<noteq> []" by auto
  with assms(1,2) have
    "out_response (route PostProcurement P E st req) = \<lparr>r_status = 400, r_payload = ErrorList ?errs\<rparr>"
    "out_store (route PostProcurement P E st req) = st"
    "out_trace (route PostProcurement P E st req) = [Authenticate, Authorize, Validate]"
    by (simp_all add: post_procurement_def guarded_def post_procurement_handler_def Let_def)
  with w e show ?thesis
    by blast
qed

text \<open>The example with a tonnage of 150.5, which is refused as it is, and with the tonnage
  \<^verbatim>\<open>[150, 7]\<close>, which release 7 refuses for its second element.\<close>

theorem tonnage_violation_witness:
  "protect example_platform empty_store
     (request_by manager ((''tonnage'', JNum (301 / 2)) # example_body)) = Some manager \<and>
   authorize [''Manager''] manager \<and>
   refused_tonnage (release example_platform) (JNum (301 / 2)) \<and>
   out_response (route PostProcurement example_platform example_env empty_store
     (request_by manager ((''tonnage'', JNum (301 / 2)) # example_body))) =
     \<lparr>r_status = 400, r_payload = ErrorList [tonnage_error (JNum (301 / 2))]\<rparr> \<and>
   out_store (route PostProcurement example_platform example_env empty_store
     (request_by manager ((''tonnage'', JNum (301 / 2)) # example_body))) = empty_store \<and>
   refused_tonnage (release example_platform) (JArr [JNum 150, JNum 7]) \<and>
   out_response (route PostProcurement example_platform example_env empty_store
     (request_by manager ((''tonnage'', JArr [JNum 150, JNum 7]) # example_body))) =
     \<lparr>r_status = 400, r_payload = ErrorList [tonnage_error (JNum 7)]\<rparr> \<and>
   out_store (route PostProcurement example_platform example_env empty_store
     (request_by manager ((''tonnage'', JArr [JNum 150, JNum 7]) # example_body))) = empty_store"
proof -
  let ?req = "request_by manager ((''tonnage'', JNum (301 / 2)) # example_body)"
  let ?req' = "request_by manager ((''tonnage'', JArr [JNum 150, JNum 7]) # example_body)"
  have v: "get_prop (req_body ?req) ''tonnage'' = JNum (301 / 2)"
    by (simp add: request_by_def get_prop_Cons)
  have v': "get_prop (req_body ?req') ''tonnage'' = JArr [JNum 150, JNum 7]"
    by (simp add: request_by_def get_prop_Cons)
  have h1: "protect example_platform empty_store ?req = Some manager"
    by code_simp
  have h1': "protect example_platform empty_store ?req' = Some manager"
    by code_simp
  have h2: "authorize [''Manager''] manager"
    by code_simp
  have h3: "refused_tonnage (release example_platform) (get_prop (req_body ?req) ''tonnage'')"
    unfolding v by code_simp
  have h3': "refused_tonnage (release example_platform) (get_prop (req_body ?req') ''tonnage'')"
    unfolding v' by code_simp
  have r: "out_response (route PostProcurement example_platform example_env empty_store ?req) =
      \<lparr>r_status = 400, r_payload = ErrorList [tonnage_error (JNum (301 / 2))]\<rparr>"
    by code_simp
  have r': "out_response (route PostProcurement example_platform example_env empty_store ?req') =
      \<lparr>r_status = 400, r_payload = ErrorList [tonnage_error (JNum 7)]\<rparr>"
    by code_simp
  from tonnage_violation [OF h1 h2 h3, of example_env]
  have s: "out_store (route PostProcurement example_platform example_env empty_store ?req) = empty_store"
    by auto
  from tonnage_violation [OF h1' h2 h3', of example_env]
  have s': "out_store (route PostProcurement example_platform example_env empty_store ?req') = empty_store"
    by auto
  from h1 h2 h3 h3' r r' s s' show ?thesis
    unfolding v v' by (intro conjI)
qed

text \<open>
  The claim as stated fails for an array. The tonnage \<^verbatim>\<open>[150]\<close> is no integer, yet
  neither release reports a violation: release 6 reads the array by its first element,
  release 7 validates the element. The handler goes on to \<^verbatim>\<open>create\<close>, the schema
  refuses the array and the \<^verbatim>\<open>catch\<close> answers with the server error, without an entry
  for the tonnage. Nothing is persisted.
\<close>

theorem tonnage_array_counterexample:
  "\<not> acceptable_tonnage (get_prop ((''tonnage'', JArr [JNum 150]) # example_body) ''tonnage'') \<and>
   validationResult example_platform procurement_chains
     ((''tonnage'', JArr [JNum 150]) # example_body) = [] \<and>
   route PostProcurement example_platform example_env empty_store
     (request_by manager ((''tonnage'', JArr [JNum 150]) # example_body)) =
     respond 500 (ErrorMessage ''Server error'') empty_store
       [Authenticate, Authorize, Validate, DefaultFill, Persist] \<and>
   validationResult older_platform procurement_chains
     ((''tonnage'', JArr [JNum 150]) # example_body) = [] \<and>
   route PostProcurement older_platform example_env empty_store
     (request_by manager ((''tonnage'', JArr [JNum 150]) # example_body)) =
     respond 500 (ErrorMessage ''Server error'') empty_store
       [Authenticate, Authorize, Validate, DefaultFill, Persist]"
  by code_simp

subsection \<open>The amount of a sale\<close>

lemma amount_reported:
  assumes "ep = PostCash \<or> ep = PostCredit"
    and "get_prop body (amount_key ep) = JNum x" and "x < 10000"
  shows "amount_error ep (JNum x) \<in> set (validationResult P (chains_of ep) body)"
proof -
  have nf: "\<not> rule_ok P (IsFloat 10000) (ev_toString (release P) (JNum x))"
    using isFloat_number_string [of 10000 x] assms(3) by (auto simp: scalar_validated)
  have v: "JNum x \<in> set (values_of (release P) (get_prop body (amount_key ep)))"
    by (simp add: assms(2) scalar_validated)
  from assms(1) show ?thesis
  proof
    assume ep: "ep = PostCash"
    have "(''amountPaid'', [(IsFloat 10000, ''Amount paid must be at least 10,000 UgX'')])
            \<in> set cash_chains"
      by (simp add: cash_chains_def)
    from violation_reported [OF this _ _ nf, of _ body] v ep show ?thesis
      by (simp add: amount_error_def)
  next
    assume ep: "ep = PostCredit"
    have "(''amountDue'', [(IsFloat 10000, ''Amount due must be at least 10,000 UgX'')])
            \<in> set credit_chains"
      by (simp add: credit_chains_def)
    from violation_reported [OF this _ _ nf, of _ body] v ep show ?thesis
      by (simp add: amount_error_def)
  qed
qed

text \<open>
  Claim C4. A sales agent or manager posts a cash sale whose \<^verbatim>\<open>amountPaid\<close>, or a credit
  sale whose \<^verbatim>\<open>amountDue\<close>, is a number below 10000: the route answers 400 with the
  violation of that field among the errors, the store is unchanged and the request ends
  after validation.
\<close>

theorem amount_below_minimum:
  assumes "ep = PostCash \<or> ep = PostCredit"
    and "protect P st req = Some u" and "authorize [''Sales Agent'', ''Manager''] u"
    and "get_prop (req_body req) (amount_key ep) = JNum x" and "x < 10000"
  shows "\<exists>errs. out_response (route ep P E st req) =
                  \<lparr>r_status = 400, r_payload = ErrorList errs\<rparr> \<and>
                amount_error ep (JNum x) \<in> set errs \<and>
                out_store (route ep P E st req) = st \<and>
                out_trace (route ep P E st req) = [Authenticate, Authorize, Validate]"
proof -
  let ?errs = "validationResult P (chains_of ep) (req_body req)"
  have m: "amount_error ep (JNum x) \<in> set ?errs"
    by (rule amount_reported [OF assms(1,4,5)])
  then have ne: "?errs \<noteq> []" by auto
  from assms(1) show ?thesis
  proof
    assume "ep = PostCash"
    with m ne assms(2,3) show ?thesis
      by (simp add: post_cash_def guarded_def post_sale_handler_def Let_def)
  next
    assume "ep = PostCredit"
    with m ne assms(2,3) show ?thesis
      by (simp add: post_credit_def guarded_def post_sale_handler_def Let_def)
  qed
qed

text \<open>The agent posts a cash sale with 9999.5 paid.\<close>

theorem amount_below_minimum_witness:
  "protect example_platform empty_store
     (request_by agent ((''amountPaid'', JNum (19999 / 2)) # example_cash_body)) = Some agent \<and>
   authorize [''Sales Agent'', ''Manager''] agent \<and>
   get_prop ((''amountPaid'', JNum (19999 / 2)) # example_cash_body) (amount_key PostCash) =
     JNum (19999 / 2) \<and>
   (19999 / 2 :: rat) < 10000 \<and>
   out_response (route PostCash example_platform example_env empty_store
     (request_by agent ((''amountPaid'', JNum (19999 / 2)) # example_cash_body))) =
     \<lparr>r_status = 400, r_payload = ErrorList [amount_error PostCash (JNum (19999 / 2))]\<rparr> \<and>
   out_store (route PostCash example_platform example_env empty_store
     (request_by agent ((''amountPaid'', JNum (19999 / 2)) # example_cash_body))) = empty_store"
proof -
  let ?req = "request_by agent ((''amountPaid'', JNum (19999 / 2)) # example_cash_body)"
  have h0: "PostCash = PostCash \<or> PostCash = PostCredit"
    by simp
  have h1: "protect example_platform empty_store ?req = Some agent"
    by code_simp
  have h2: "authorize [''Sales Agent'', ''Manager''] agent"
    by code_simp
  have h3: "get_prop (req_body ?req) (amount_key PostCash) = JNum (19999 / 2)"
    by (simp add: request_by_def get_prop_Cons)
  have h4: "(19999 / 2 :: rat) < 10000"
    by simp
  have r: "out_response (route PostCash example_platform example_env empty_store ?req) =
      \<lparr>r_status = 400, r_payload = ErrorList [amount_error PostCash (JNum (19999 / 2))]\<rparr>"
    by code_simp
  from amount_below_minimum [OF h0 h1 h2 h3 h4, of example_env]
  have "out_store (route PostCash example_platform example_env empty_store ?req) = empty_store"
    by auto
  with h1 h2 h3 h4 r show ?thesis
    by (simp add: request_by_def)
qed

subsection \<open>The order of the steps\<close>

lemma ordered_post_procurement: "ordered PostProcurement st (post_procurement P E st req)"
  by (simp add: ordered_def pipeline_def creation_def post_procurement_def guarded_def
        post_procurement_handler_def Let_def server_error_def
        split: option.split sum.split)

lemma ordered_post_cash: "ordered PostCash st (post_cash P E st req)"
  by (simp add: ordered_def pipeline_def creation_def post_cash_def guarded_def
        post_sale_handler_def Let_def server_error_def
        split: option.split sum.split)

lemma ordered_post_credit: "ordered PostCredit st (post_credit P E st req)"
  by (simp add: ordered_def pipeline_def creation_def post_credit_def guarded_def
        post_sale_handler_def Let_def server_error_def
        split: option.split sum.split)

lemma ordered_get_procurements: "ordered GetProcurements st (get_procurements P st req)"
  by (simp add: ordered_def pipeline_def creation_def get_procurements_def guarded_def
        server_error_def split: option.split sum.split)

lemma ordered_get_procurement: "ordered GetProcurement st (get_procurement P st req)"
  by (simp add: ordered_def pipeline_def creation_def get_procurement_def guarded_def
        server_error_def split: option.split sum.split)

lemma ordered_get_sales: "ordered GetSales st (get_sales P st req)"
  by (simp add: ordered_def pipeline_def creation_def get_sales_def guarded_def
        server_error_def split: option.split sum.split)

lemma ordered_patch_payment: "ordered PatchPayment st (patch_payment P E st req)"
  by (simp add: ordered_def pipeline_def creation_def patch_payment_def guarded_def
        server_error_def split: option.split sum.split)

text \<open>
  Claim C5. On every endpoint a request without a valid credential is answered 401
  Unauthenticated by the guard alone: the store is unchanged and no validation, default
  or store call has run. Every request, whatever it carries, keeps the order authenticate,
  authorize, validate, default-fill, persist of the steps its endpoint has, and takes no
  further step after one that refused it: on a creation route a role outside the allowed
  ones ends the request at the authorization with 403, and a violation ends it at the
  validation with 400.
\<close>

theorem unauthenticated_before_validation:
  assumes "protect P st req = None"
  shows "route ep P E st req = respond 401 Unauthenticated st [Authenticate] \<and>
         (\<forall>req'. ordered ep st (route ep P E st req')) \<and>
         (\<forall>req' u. creation ep \<and> protect P st req' = Some u \<and> \<not> authorize (roles_of ep) u \<longrightarrow>
            route ep P E st req' = respond 403 Forbidden st [Authenticate, Authorize]) \<and>
         (\<forall>req' u. creation ep \<and> protect P st req' = Some u \<and> authorize (roles_of ep) u \<and>
            validationResult P (chains_of ep) (req_body req') \<noteq> [] \<longrightarrow>
            route ep P E st req' =
              respond 400 (ErrorList (validationResult P (chains_of ep) (req_body req'))) st
                [Authenticate, Authorize, Validate])"
proof -
  have "route ep P E st req = respond 401 Unauthenticated st [Authenticate]"
    using assms
    by (cases ep)
       (simp_all add: post_procurement_def get_procurements_def get_procurement_def post_cash_def
          post_credit_def get_sales_def patch_payment_def guarded_def)
  moreover have "ordered ep st (route ep P E st req')" for req'
    by (cases ep)
       (simp_all add: ordered_post_procurement ordered_post_cash ordered_post_credit
          ordered_get_procurements ordered_get_procurement ordered_get_sales ordered_patch_payment)
  ultimately show ?thesis
    using refused_by_role refused_by_validation by blast
qed

text \<open>An anonymous request with an empty body, which validation would refuse on every
  field, is answered by the guard.\<close>

theorem unauthenticated_before_validation_witness:
  "protect example_platform empty_store (anonymous []) = None \<and>
   validationResult example_platform procurement_chains (req_body (anonymous [])) \<noteq> [] \<and>
   route PostProcurement example_platform example_env empty_store (anonymous []) =
     respond 401 Unauthenticated empty_store [Authenticate] \<and>
   ordered PostProcurement empty_store
     (route PostProcurement example_platform example_env empty_store (request_by manager []))"
proof -
  have h: "protect example_platform empty_store (anonymous []) = None"
    by code_simp
  have v: "validationResult example_platform procurement_chains (req_body (anonymous [])) \<noteq> []"
    by code_simp
  from unauthenticated_before_validation [OF h, of PostProcurement example_env] h v
  show ?thesis by blast
qed

subsection \<open>Who may record a procurement\<close>













lemma trimmed_type_example:
  "out_response (route PostProcurement example_platform example_env empty_store
     (request_by manager ((''produceType'', JStr '' Ab '') # example_body))) =
   \<lparr>r_status = 201,
    r_payload = Data (ProcurementDoc (example_procurement\<lparr>p_produceType := ''Ab''\<rparr>))\<rparr>"
  by code_simp

subsection \<open>The list of violations\<close>

lemma error_json_keys:
  "map fst (error_json Release6 e) =
     (if err_value e = JUndefined then [] else [''value'']) @ [''msg'', ''param'', ''location'']"
  "map fst (error_json Release7 e) =
     ''type'' # (if err_value e = JUndefined then [] else [''value'']) @ [''msg'', ''path'', ''location'']"
  by (simp_all add: error_json_def)

text \<open>
  Claim C7, as amended. When validation finds a violation on a creation route, the
  answer is 400 with the whole result: every validator of every chain that fails on a
  value of its field has its entry there, not only the first. An entry is the library's
  own error object, since the routes pass \<^verbatim>\<open>errors.array()\<close> on unformatted: its keys
  are \<^verbatim>\<open>value\<close> (when the field has one), \<^verbatim>\<open>msg\<close>, \<^verbatim>\<open>param\<close>, \<^verbatim>\<open>location\<close> in release 6
  and \<^verbatim>\<open>type\<close>, \<^verbatim>\<open>value\<close>, \<^verbatim>\<open>msg\<close>, \<^verbatim>\<open>path\<close>, \<^verbatim>\<open>location\<close> in release 7.
\<close>

theorem all_violations_returned:
  assumes "creation ep" and "protect P st req = Some u" and "authorize (roles_of ep) u"
    and "validationResult P (chains_of ep) (req_body req) \<noteq> []"
  shows "out_response (route ep P E st req) =
           \<lparr>r_status = 400,
            r_payload = ErrorList (validationResult P (chains_of ep) (req_body req))\<rparr> \<and>
         (\<forall>field rules r m e.
            (field, rules) \<in> set (chains_of ep) \<and> (r, m) \<in> set rules \<and>
            e \<in> set (values_of (release P) (get_prop (req_body req) field)) \<and>
            \<not> rule_ok P r (ev_toString (release P) e) \<longrightarrow>
            \<lparr>err_value = e, err_msg = m, err_path = field, err_location = ''body''\<rparr>
              \<in> set (validationResult P (chains_of ep) (req_body req))) \<and>
         (\<forall>e. map fst (error_json Release6 e) =
                (if err_value e = JUndefined then [] else [''value'']) @
                [''msg'', ''param'', ''location''] \<and>
              map fst (error_json Release7 e) =
                ''type'' # (if err_value e = JUndefined then [] else [''value'']) @
                [''msg'', ''path'', ''location''])"
  using refused_by_validation [OF assms] violation_reported error_json_keys
  by (simp del: append.simps) blast

text \<open>The manager posts an empty body: eleven entries, two each for the fields with two
  validators.\<close>

theorem all_violations_returned_witness:
  "creation PostProcurement \<and>
   protect example_platform empty_store (request_by manager []) = Some manager \<and>
   authorize (roles_of PostProcurement) manager \<and>
   validationResult example_platform (chains_of PostProcurement) (req_body (request_by manager [])) \<noteq> [] \<and>
   out_response (route PostProcurement example_platform example_env empty_store (request_by manager [])) =
     \<lparr>r_status = 400,
      r_payload = ErrorList (validationResult example_platform (chains_of PostProcurement)
                    (req_body (request_by manager [])))\<rparr> \<and>
   map err_path (validationResult example_platform (chains_of PostProcurement)
                   (req_body (request_by manager []))) =
     [''produceName'', ''produceType'', ''produceType'', ''time'', ''tonnage'', ''cost'',
      ''dealerName'', ''dealerName'', ''branch'', ''contact'', ''sellingPrice'']"
proof -
  let ?req = "request_by manager []"
  have h1: "creation PostProcurement"
    by (simp add: creation_def)
  have h2: "protect example_platform empty_store ?req = Some manager"
    by code_simp
  have h3: "authorize (roles_of PostProcurement) manager"
    by code_simp
  have p: "map err_path (validationResult example_platform (chains_of PostProcurement) (req_body ?req)) =
     [''produceName'', ''produceType'', ''produceType'', ''time'', ''tonnage'', ''cost'',
      ''dealerName'', ''dealerName'', ''branch'', ''contact'', ''sellingPrice'']"
    by code_simp
  then have h4: "validationResult example_platform (chains_of PostProcurement) (req_body ?req) \<noteq> []"
    by auto
  from all_violations_returned [OF h1 h2 h3 h4, of example_env] h1 h2 h3 h4 p
  show ?thesis by blast
qed

text \<open>
  The claim as stated fails on the shape: the entry for a tonnage of 99 has no key
  \<^verbatim>\<open>field\<close> and no key \<^verbatim>\<open>message\<close> in either release.
\<close>

theorem error_shape_counterexample:
  "out_response (route PostProcurement example_platform example_env empty_store
     (request_by manager ((''tonnage'', JNum 99) # example_body))) =
     \<lparr>r_status = 400, r_payload = ErrorList [tonnage_error (JNum 99)]\<rparr> \<and>
   error_json Release6 (tonnage_error (JNum 99)) =
     [(''value'', JNum 99), (''msg'', JStr ''Tonnage must be at least 100 kg''),
      (''param'', JStr ''tonnage''), (''location'', JStr ''body'')] \<and>
   error_json Release7 (tonnage_error (JNum 99)) =
     [(''type'', JStr ''field''), (''value'', JNum 99),
      (''msg'', JStr ''Tonnage must be at least 100 kg''), (''path'', JStr ''tonnage''),
      (''location'', JStr ''body'')] \<and>
   ''field'' \<notin> set (map fst (error_json Release6 (tonnage_error (JNum 99)))) \<and>
   ''message'' \<notin> set (map fst (error_json Release6 (tonnage_error (JNum 99)))) \<and>
   ''field'' \<notin> set (map fst (error_json Release7 (tonnage_error (JNum 99)))) \<and>
   ''message'' \<notin> set (map fst (error_json Release7 (tonnage_error (JNum 99))))"
proof -
  have r: "out_response (route PostProcurement example_platform example_env empty_store
     (request_by manager ((''tonnage'', JNum 99) # example_body))) =
     \<lparr>r_status = 400, r_payload = ErrorList [tonnage_error (JNum 99)]\<rparr>"
    by code_simp
  have j6: "error_json Release6 (tonnage_error (JNum 99)) =
     [(''value'', JNum 99), (''msg'', JStr ''Tonnage must be at least 100 kg''),
      (''param'', JStr ''tonnage''), (''location'', JStr ''body'')]"
    by (simp add: error_json_def tonnage_error_def)
  have j7: "error_json Release7 (tonnage_error (JNum 99)) =
     [(''type'', JStr ''field''), (''value'', JNum 99),
      (''msg'', JStr ''Tonnage must be at least 100 kg''), (''path'', JStr ''tonnage''),
      (''location'', JStr ''body'')]"
    by (simp add: error_json_def tonnage_error_def)
  have k6: "''field'' \<notin> set (map fst (error_json Release6 (tonnage_error (JNum 99))))"
    "''message'' \<notin> set (map fst (error_json Release6 (tonnage_error (JNum 99))))"
    by (simp_all add: j6)
  have k7: "''field'' \<notin> set (map fst (error_json Release7 (tonnage_error (JNum 99))))"
    "''message'' \<notin> set (map fst (error_json Release7 (tonnage_error (JNum 99))))"
    by (simp_all add: j7)
  from r j6 j7 k6 k7 show ?thesis
    by (intro conjI)
qed

subsection \<open>Paying a credit sale\<close>

lemma protect_users: "users st' = users st \<Longrightarrow> protect P st' req = protect P st req"
  by (simp add: protect_def split: option.split)

lemma mark_paid_id [simp]: "s_id (mark_paid E s) = s_id s"
  by (simp add: mark_paid_def split: variant.split)

lemma mark_paid_credit:
  assumes "in_model CreditSaleModel s"
  shows "in_model CreditSaleModel (mark_paid E s)"
    and "sale_isPaid (mark_paid E s) = Some True"
    and "sale_paymentDate (mark_paid E s) = Some (now E)"
  using assms by (auto simp: mark_paid_def split: variant.splits)

text \<open>The outcome of the payment route when the identity casts.\<close>

lemma patch_payment_cast:
  assumes "protect P st req = Some u" and "available st"
    and "castObjectId (param_id req) = Val oid"
  shows "route PatchPayment P E st req =
           (case credit_sale_of st oid of
              None \<Rightarrow> respond 404 (ErrorMessage ''Credit sale not found'') st [Authenticate, Persist]
            | Some s \<Rightarrow>
                if mark_paid E s = s then respond 200 (Data (SaleDoc s)) st [Authenticate, Persist]
                else respond 200 (Data (SaleDoc ((mark_paid E s)\<lparr>s_updatedAt := store_now E\<rparr>)))
                       (st\<lparr>sales := map (\<lambda>x. if s_id x = s_id s
                                               then (mark_paid E s)\<lparr>s_updatedAt := store_now E\<rparr>
                                               else x) (sales st)\<rparr>)
                       [Authenticate, Persist])"
  using assms
  by (simp add: patch_payment_def guarded_def and_then_def resolve_CreditSale model_findById_def
        credit_sale_of_def save_def Let_def split: option.split)

lemma find_replaced:
  assumes "find (\<lambda>x. s_id x = oid \<and> Q x) xs = Some s" and "s_id d = oid" and "Q d"
  shows "find (\<lambda>x. s_id x = oid \<and> Q x) (map (\<lambda>x. if s_id x = oid then d else x) xs) = Some d"
  using assms by (induction xs) (auto split: if_splits)

lemma credit_sale_of_id: "credit_sale_of st oid = Some s \<Longrightarrow> s_id s = oid \<and> in_model CreditSaleModel s"
  by (auto simp: credit_sale_of_def dest: find_Some_iff [THEN iffD1])


lemma updatedAt_keeps:
  "in_model CreditSaleModel (s\<lparr>s_updatedAt := t\<rparr>) = in_model CreditSaleModel s"
  "sale_isPaid (s\<lparr>s_updatedAt := t\<rparr>) = sale_isPaid s"
  "sale_paymentDate (s\<lparr>s_updatedAt := t\<rparr>) = sale_paymentDate s"
  by simp_all

lemma patch_once:
  assumes "protect P st req = Some u" and "available st"
    and "castObjectId (param_id req) = Val oid" and "credit_sale_of st oid = Some s"
  obtains d where
    "out_response (route PatchPayment P E st req) = \<lparr>r_status = 200, r_payload = Data (SaleDoc d)\<rparr>"
    and "s_id d = oid" and "sale_isPaid d = Some True" and "sale_paymentDate d = Some (now E)"
    and "without_payment d = without_payment s"
    and "credit_sale_of (out_store (route PatchPayment P E st req)) oid = Some d"
    and "users (out_store (route PatchPayment P E st req)) = users st"
    and "available (out_store (route PatchPayment P E st req))"
proof -
  from credit_sale_of_id [OF assms(4)] have id: "s_id s = oid" and cr: "in_model CreditSaleModel s"
    by simp_all
  note r = patch_payment_cast [OF assms(1-3), of E, unfolded assms(4), simplified]
  show thesis
  proof (cases "mark_paid E s = s")
    case True
    with r have 1: "route PatchPayment P E st req = respond 200 (Data (SaleDoc s)) st [Authenticate, Persist]"
      by simp
    from mark_paid_credit(2,3) [OF cr, of E] True
    have "sale_isPaid s = Some True" "sale_paymentDate s = Some (now E)"
      by simp_all
    with 1 id assms(2,4) show thesis
      by (intro that [of s]) simp_all
  next
    case False
    let ?d = "(mark_paid E s)\<lparr>s_updatedAt := store_now E\<rparr>"
    from False r have 1: "route PatchPayment P E st req =
        respond 200 (Data (SaleDoc ?d))
          (st\<lparr>sales := map (\<lambda>x. if s_id x = s_id s then ?d else x) (sales st)\<rparr>)
          [Authenticate, Persist]"
      by simp
    have d: "s_id ?d = oid" "in_model CreditSaleModel ?d"
      "sale_isPaid ?d = Some True" "sale_paymentDate ?d = Some (now E)"
      using id mark_paid_credit [OF cr, of E] by (simp_all only: updatedAt_keeps) simp
    have w: "without_payment ?d = without_payment s"
      by (simp add: without_payment_def mark_paid_def split: variant.split)
    from assms(4) have "find (\<lambda>x. s_id x = oid \<and> in_model CreditSaleModel x) (sales st) = Some s"
      by (simp add: credit_sale_of_def)
    from find_replaced [OF this d(1,2)] id
    have "credit_sale_of (st\<lparr>sales := map (\<lambda>x. if s_id x = s_id s then ?d else x) (sales st)\<rparr>) oid
            = Some ?d"
      by (simp add: credit_sale_of_def)
    with 1 d w assms(2) show thesis
      by (intro that [of ?d]) simp_all
  qed
qed

text \<open>Two payments in a row of the credit sale an identity names.\<close>

lemma patch_twice:
  assumes "protect P st req = Some u" and "available st"
    and "castObjectId (param_id req) = Val oid" and "credit_sale_of st oid = Some s"
  obtains d d' where
    "out_response (route PatchPayment P E st req) = \<lparr>r_status = 200, r_payload = Data (SaleDoc d)\<rparr>"
    and "s_id d = oid" and "sale_isPaid d = Some True" and "sale_paymentDate d = Some (now E)"
    and "without_payment d = without_payment s"
    and "credit_sale_of (store_after PatchPayment P E st req) oid = Some d"
    and "out_response (route PatchPayment P E' (store_after PatchPayment P E st req) req) =
           \<lparr>r_status = 200, r_payload = Data (SaleDoc d')\<rparr>"
    and "sale_isPaid d' = Some True" and "sale_paymentDate d' = Some (now E')"
    and "without_payment d' = without_payment s"
proof -
  let ?st = "out_store (route PatchPayment P E st req)"
  from assms obtain d where d:
    "out_response (route PatchPayment P E st req) = \<lparr>r_status = 200, r_payload = Data (SaleDoc d)\<rparr>"
    "s_id d = oid" "sale_isPaid d = Some True" "sale_paymentDate d = Some (now E)"
    "without_payment d = without_payment s"
    "credit_sale_of ?st oid = Some d" "users ?st = users st" "available ?st"
    by (rule patch_once)
  have p: "protect P ?st req = Some u"
    using protect_users [OF d(7)] assms(1) by simp
  from p d(8) assms(3) d(6) obtain d' where d':
    "out_response (route PatchPayment P E' ?st req) = \<lparr>r_status = 200, r_payload = Data (SaleDoc d')\<rparr>"
    "sale_isPaid d' = Some True" "sale_paymentDate d' = Some (now E')"
    "without_payment d' = without_payment d"
    by (rule patch_once)
  from d d' show thesis
    by (intro that [of d d']) (simp_all add: store_after_def)
qed

text \<open>An ObjectId casts to itself, and a sale is created with one when the store hands
  out ObjectIds.\<close>

lemma lower_hex_hex: "is_hex c \<Longrightarrow> is_hex (lower_hex c) \<and> lower_hex (lower_hex c) = lower_hex c"
  by (auto simp: is_hex_def lower_hex_def is_upper_def is_digit_def char_code_def)

lemma castObjectId_idem: "castObjectId s = Val i \<Longrightarrow> castObjectId i = Val i"
  by (auto simp: castObjectId_def list_all_iff lower_hex_hex split: if_splits)

lemma sale_doc_id:
  assumes "sale_doc P E d vo = Some s" and "castObjectId (new_id E) = Val (new_id E)"
  shows "castObjectId (s_id s) = Val (s_id s)"
  using assms
  by (auto simp: sale_doc_def Let_def bind_eq_Some_conv id_path_def
        split: jsval.splits cast.splits dest: castObjectId_idem)

lemma credit_sale_of_appended:
  assumes "s_id s \<notin> set (map s_id xs)" and "in_model CreditSaleModel s"
  shows "find (\<lambda>x. s_id x = s_id s \<and> in_model CreditSaleModel x) (xs @ [s]) = Some s"
  using assms by (induction xs) auto

text \<open>A credit sale that was created: unpaid when the body says nothing about the
  payment, stored under its identity, in a store that is available.\<close>

lemma credit_created:
  assumes "out_response (route PostCredit P E st req) = \<lparr>r_status = 201, r_payload = Data (SaleDoc d)\<rparr>"
  obtains u where "protect P st req = Some u"
    and "isPaid_path (get_prop (req_body req) ''isPaid'') = Some (sale_isPaid d)"
    and "optional_date_path P None (get_prop (req_body req) ''paymentDate'') =
           Some (sale_paymentDate d)"
    and "castObjectId (new_id E) = Val (new_id E) \<longrightarrow> castObjectId (s_id d) = Val (s_id d)"
    and "store_after PostCredit P E st req = st\<lparr>sales := sales st @ [d]\<rparr>"
    and "credit_sale_of (store_after PostCredit P E st req) (s_id d) = Some d"
    and "available st"
proof -
  from assms have "r_status (out_response (guarded P st req (Some [''Sales Agent'', ''Manager''])
      (post_sale_handler credit_chains ''CreditSale'' ''dispatchDate'' P E st (req_body req)))) = 201"
    by (simp add: post_credit_def)
  then obtain u s where
    u: "protect P st req = Some u"
    and s: "sale_doc P E (sale_data ''dispatchDate'' E u (req_body req))
         (variant_doc P E CreditSaleModel (sale_data ''dispatchDate'' E u (req_body req))) = Some s"
    and av: "available st" and fresh: "s_id s \<notin> set (map s_id (sales st))"
    and r: "guarded P st req (Some [''Sales Agent'', ''Manager''])
         (post_sale_handler credit_chains ''CreditSale'' ''dispatchDate'' P E st (req_body req)) =
         respond 201 (Data (SaleDoc s)) (st\<lparr>sales := sales st @ [s]\<rparr>)
           [Authenticate, Authorize, Validate, DefaultFill, Persist]"
    using resolve_CreditSale by (elim post_sale_created) auto
  from r assms have d: "d = s"
    by (simp add: post_credit_def)
  from sale_doc_fields(2) [OF s] obtain c where
    c: "s_variant s = Credit c"
       "credit_doc P E (sale_data ''dispatchDate'' E u (req_body req)) = Some c"
    by (fastforce simp: variant_doc_def dest: sym)
  from credit_doc_fields(3,4) [OF c(2)] c(1)
  have pay: "isPaid_path (get_prop (req_body req) ''isPaid'') = Some (sale_isPaid s)"
    "optional_date_path P None (get_prop (req_body req) ''paymentDate'') = Some (sale_paymentDate s)"
    by (simp_all add: sale_data_def)
  from c(1) have cr: "in_model CreditSaleModel s"
    by simp
  from r have st: "store_after PostCredit P E st req = st\<lparr>sales := sales st @ [s]\<rparr>"
    by (simp add: store_after_def post_credit_def)
  have stored: "credit_sale_of (store_after PostCredit P E st req) (s_id s) = Some s"
    unfolding st using credit_sale_of_appended [OF fresh cr] by (simp add: credit_sale_of_def)
  have oid: "castObjectId (new_id E) = Val (new_id E) \<longrightarrow> castObjectId (s_id s) = Val (s_id s)"
    using sale_doc_id [OF s] by blast
  from u pay oid st stored av show thesis
    unfolding d [symmetric] by (rule that [of u])
qed

text \<open>
  Claim C2, as amended. A credit sale created from a body without \<^verbatim>\<open>isPaid\<close> and
  without \<^verbatim>\<open>paymentDate\<close> (or with \<^verbatim>\<open>null\<close> or the empty string for it) has
  \<^verbatim>\<open>isPaid = false\<close> and no payment date, and it is stored
  under the identity the response shows, which is an ObjectId when the store hands out
  ObjectIds. An authenticated call of the payment route with that identity then answers
  200 with \<^verbatim>\<open>isPaid = true\<close> and the time of the call as payment date, and a repeated
  call answers 200 with \<^verbatim>\<open>isPaid\<close> still true and the time of the repeated call; the
  other fields of the sale are as created but for \<^verbatim>\<open>updatedAt\<close>. The same holds for
  every credit sale of an available store. For an identity that is an ObjectId of no
  credit sale the answer is 404 and the store is unchanged; an identity that is no
  ObjectId (and not 12 characters long) is never answered 404: the cast inside
  \<^verbatim>\<open>findById\<close> throws and the \<^verbatim>\<open>catch\<close> answers.
\<close>

theorem credit_payment_round_trip:
  "(\<forall>d. out_response (route PostCredit P E st req) =
           \<lparr>r_status = 201, r_payload = Data (SaleDoc d)\<rparr> \<and>
         get_prop (req_body req) ''isPaid'' = JUndefined \<and>
         get_prop (req_body req) ''paymentDate'' \<in> {JUndefined, JNull, JStr []} \<and>
         castObjectId (new_id E) = Val (new_id E) \<longrightarrow>
         sale_isPaid d = Some False \<and> sale_paymentDate d = None \<and>
         castObjectId (s_id d) = Val (s_id d) \<and>
         credit_sale_of (store_after PostCredit P E st req) (s_id d) = Some d \<and>
         (\<forall>pay u E1 E2.
            protect P (store_after PostCredit P E st req) pay = Some u \<and>
            castObjectId (param_id pay) = Val (s_id d) \<longrightarrow>
            (\<exists>d1 d2.
               out_response (route PatchPayment P E1 (store_after PostCredit P E st req) pay) =
                 \<lparr>r_status = 200, r_payload = Data (SaleDoc d1)\<rparr> \<and>
               sale_isPaid d1 = Some True \<and> sale_paymentDate d1 = Some (now E1) \<and>
               without_payment d1 = without_payment d \<and>
               out_response (route PatchPayment P E2
                   (store_after PatchPayment P E1 (store_after PostCredit P E st req) pay) pay) =
                 \<lparr>r_status = 200, r_payload = Data (SaleDoc d2)\<rparr> \<and>
               sale_isPaid d2 = Some True \<and> sale_paymentDate d2 = Some (now E2) \<and>
               without_payment d2 = without_payment d))) \<and>
   (\<forall>u oid s E1 E2.
      protect P st req = Some u \<and> available st \<and> castObjectId (param_id req) = Val oid \<and>
      credit_sale_of st oid = Some s \<longrightarrow>
      (\<exists>d1 d2.
         out_response (route PatchPayment P E1 st req) =
           \<lparr>r_status = 200, r_payload = Data (SaleDoc d1)\<rparr> \<and>
         s_id d1 = oid \<and> sale_isPaid d1 = Some True \<and> sale_paymentDate d1 = Some (now E1) \<and>
         without_payment d1 = without_payment s \<and>
         credit_sale_of (store_after PatchPayment P E1 st req) oid = Some d1 \<and>
         out_response (route PatchPayment P E2 (store_after PatchPayment P E1 st req) req) =
           \<lparr>r_status = 200, r_payload = Data (SaleDoc d2)\<rparr> \<and>
         sale_isPaid d2 = Some True \<and> sale_paymentDate d2 = Some (now E2) \<and>
         without_payment d2 = without_payment s)) \<and>
   (\<forall>u oid.
      protect P st req = Some u \<and> available st \<and> castObjectId (param_id req) = Val oid \<and>
      credit_sale_of st oid = None \<longrightarrow>
      route PatchPayment P E st req =
        respond 404 (ErrorMessage ''Credit sale not found'') st [Authenticate, Persist]) \<and>
   (\<forall>u.
      protect P st req = Some u \<and> castObjectId (param_id req) = CastError \<and>
      length (param_id req) \<noteq> 12 \<longrightarrow>
      route PatchPayment P E st req =
        respond 500 (ErrorMessage ''Server error'') st [Authenticate, Persist])"
proof -
  have created: "sale_isPaid d = Some False \<and> sale_paymentDate d = None \<and>
      castObjectId (s_id d) = Val (s_id d) \<and>
      credit_sale_of (store_after PostCredit P E st req) (s_id d) = Some d \<and>
      (\<forall>pay u E1 E2.
         protect P (store_after PostCredit P E st req) pay = Some u \<and>
         castObjectId (param_id pay) = Val (s_id d) \<longrightarrow>
         (\<exists>d1 d2.
            out_response (route PatchPayment P E1 (store_after PostCredit P E st req) pay) =
              \<lparr>r_status = 200, r_payload = Data (SaleDoc d1)\<rparr> \<and>
            sale_isPaid d1 = Some True \<and> sale_paymentDate d1 = Some (now E1) \<and>
            without_payment d1 = without_payment d \<and>
            out_response (route PatchPayment P E2
                (store_after PatchPayment P E1 (store_after PostCredit P E st req) pay) pay) =
              \<lparr>r_status = 200, r_payload = Data (SaleDoc d2)\<rparr> \<and>
            sale_isPaid d2 = Some True \<and> sale_paymentDate d2 = Some (now E2) \<and>
            without_payment d2 = without_payment d))"
    if a: "out_response (route PostCredit P E st req) =
             \<lparr>r_status = 201, r_payload = Data (SaleDoc d)\<rparr> \<and>
           get_prop (req_body req) ''isPaid'' = JUndefined \<and>
           get_prop (req_body req) ''paymentDate'' \<in> {JUndefined, JNull, JStr []} \<and>
           castObjectId (new_id E) = Val (new_id E)" for d
  proof -
    let ?st = "store_after PostCredit P E st req"
    from a obtain u0 where c:
      "isPaid_path (get_prop (req_body req) ''isPaid'') = Some (sale_isPaid d)"
      "optional_date_path P None (get_prop (req_body req) ''paymentDate'') =
         Some (sale_paymentDate d)"
      "castObjectId (new_id E) = Val (new_id E) \<longrightarrow> castObjectId (s_id d) = Val (s_id d)"
      "?st = st\<lparr>sales := sales st @ [d]\<rparr>"
      "credit_sale_of ?st (s_id d) = Some d" "available st"
      by (elim conjE credit_created) blast
    from c(1,2) a have unpaid: "sale_isPaid d = Some False" "sale_paymentDate d = None"
      by (auto simp: isPaid_path_def optional_date_path_def)
    from c(3) a have oid: "castObjectId (s_id d) = Val (s_id d)"
      by blast
    from c(4,6) have av: "available ?st"
      by simp
    have "\<exists>d1 d2.
            out_response (route PatchPayment P E1 ?st pay) =
              \<lparr>r_status = 200, r_payload = Data (SaleDoc d1)\<rparr> \<and>
            sale_isPaid d1 = Some True \<and> sale_paymentDate d1 = Some (now E1) \<and>
            without_payment d1 = without_payment d \<and>
            out_response (route PatchPayment P E2 (store_after PatchPayment P E1 ?st pay) pay) =
              \<lparr>r_status = 200, r_payload = Data (SaleDoc d2)\<rparr> \<and>
            sale_isPaid d2 = Some True \<and> sale_paymentDate d2 = Some (now E2) \<and>
            without_payment d2 = without_payment d"
      if p: "protect P ?st pay = Some u \<and> castObjectId (param_id pay) = Val (s_id d)"
      for pay u E1 E2
    proof -
      from p have p1: "protect P ?st pay = Some u" and p2: "castObjectId (param_id pay) = Val (s_id d)"
        by simp_all
      from patch_twice [OF p1 av p2 c(5), of E1 E2] show ?thesis
        by metis
    qed
    with unpaid oid c(5) show ?thesis
      by blast
  qed
  have paid: "\<exists>d1 d2.
         out_response (route PatchPayment P E1 st req) =
           \<lparr>r_status = 200, r_payload = Data (SaleDoc d1)\<rparr> \<and>
         s_id d1 = oid \<and> sale_isPaid d1 = Some True \<and> sale_paymentDate d1 = Some (now E1) \<and>
         without_payment d1 = without_payment s \<and>
         credit_sale_of (store_after PatchPayment P E1 st req) oid = Some d1 \<and>
         out_response (route PatchPayment P E2 (store_after PatchPayment P E1 st req) req) =
           \<lparr>r_status = 200, r_payload = Data (SaleDoc d2)\<rparr> \<and>
         sale_isPaid d2 = Some True \<and> sale_paymentDate d2 = Some (now E2) \<and>
         without_payment d2 = without_payment s"
    if a: "protect P st req = Some u \<and> available st \<and> castObjectId (param_id req) = Val oid \<and>
           credit_sale_of st oid = Some s" for u oid s E1 E2
  proof -
    from a have a': "protect P st req = Some u" "available st"
      "castObjectId (param_id req) = Val oid" "credit_sale_of st oid = Some s"
      by simp_all
    from patch_twice [OF a', of E1 E2] show ?thesis
      by metis
  qed
  have missing: "route PatchPayment P E st req =
        respond 404 (ErrorMessage ''Credit sale not found'') st [Authenticate, Persist]"
    if a: "protect P st req = Some u \<and> available st \<and> castObjectId (param_id req) = Val oid \<and>
           credit_sale_of st oid = None" for u oid
    using a patch_payment_cast [of P st req u oid E] by simp
  have malformed: "route PatchPayment P E st req =
        respond 500 (ErrorMessage ''Server error'') st [Authenticate, Persist]"
    if a: "protect P st req = Some u \<and> castObjectId (param_id req) = CastError \<and>
           length (param_id req) \<noteq> 12" for u
    using a
    by (simp add: patch_payment_def guarded_def and_then_def resolve_CreditSale
          model_findById_def server_error_def)
  from created paid missing malformed show ?thesis
    by blast
qed

text \<open>The agent posts the example credit sale, which is created unpaid, and pays it twice
  under the identity of the response, at the times 2000 and 3000. An ObjectId of no sale is
  answered 404, the identity \<^verbatim>\<open>abc\<close> 500.\<close>

theorem credit_payment_round_trip_witness:
  "out_response (route PostCredit example_platform example_env empty_store
     (request_by agent example_credit_body)) =
     \<lparr>r_status = 201, r_payload = Data (SaleDoc example_sale)\<rparr> \<and>
   get_prop (req_body (request_by agent example_credit_body)) ''isPaid'' = JUndefined \<and>
   get_prop (req_body (request_by agent example_credit_body)) ''paymentDate''
     \<in> {JUndefined, JNull, JStr []} \<and>
   castObjectId (new_id example_env) = Val (new_id example_env) \<and>
   sale_isPaid example_sale = Some False \<and> sale_paymentDate example_sale = None \<and>
   store_after PostCredit example_platform example_env empty_store
     (request_by agent example_credit_body) = credit_store \<and>
   protect example_platform credit_store
     (payment_request agent ''0123456789ABCDEF01234567'') = Some agent \<and>
   castObjectId (param_id (payment_request agent ''0123456789ABCDEF01234567'')) =
     Val (s_id example_sale) \<and>
   (\<exists>d1 d2.
      out_response (route PatchPayment example_platform later_env credit_store
          (payment_request agent ''0123456789ABCDEF01234567'')) =
        \<lparr>r_status = 200, r_payload = Data (SaleDoc d1)\<rparr> \<and>
      sale_isPaid d1 = Some True \<and> sale_paymentDate d1 = Some 2000 \<and>
      out_response (route PatchPayment example_platform latest_env
          (store_after PatchPayment example_platform later_env credit_store
             (payment_request agent ''0123456789ABCDEF01234567''))
          (payment_request agent ''0123456789ABCDEF01234567'')) =
        \<lparr>r_status = 200, r_payload = Data (SaleDoc d2)\<rparr> \<and>
      sale_isPaid d2 = Some True \<and> sale_paymentDate d2 = Some 3000) \<and>
   protect example_platform credit_store
     (payment_request agent ''ffffffffffffffffffffffff'') = Some agent \<and>
   available credit_store \<and>
   castObjectId (param_id (payment_request agent ''ffffffffffffffffffffffff'')) =
     Val ''ffffffffffffffffffffffff'' \<and>
   credit_sale_of credit_store ''ffffffffffffffffffffffff'' = None \<and>
   route PatchPayment example_platform later_env credit_store
     (payment_request agent ''ffffffffffffffffffffffff'') =
     respond 404 (ErrorMessage ''Credit sale not found'') credit_store [Authenticate, Persist] \<and>
   protect example_platform credit_store (payment_request agent ''abc'') = Some agent \<and>
   castObjectId (param_id (payment_request agent ''abc'')) = CastError \<and>
   length (param_id (payment_request agent ''abc'')) \<noteq> 12 \<and>
   route PatchPayment example_platform later_env credit_store (payment_request agent ''abc'') =
     respond 500 (ErrorMessage ''Server error'') credit_store [Authenticate, Persist]"
proof -
  let ?post = "request_by agent example_credit_body"
  let ?pay = "payment_request agent ''0123456789ABCDEF01234567''"
  let ?miss = "payment_request agent ''ffffffffffffffffffffffff''"
  have c1: "out_response (route PostCredit example_platform example_env empty_store ?post) =
      \<lparr>r_status = 201, r_payload = Data (SaleDoc example_sale)\<rparr>"
    by code_simp
  have c2: "get_prop (req_body ?post) ''isPaid'' = JUndefined"
    "get_prop (req_body ?post) ''paymentDate'' \<in> {JUndefined, JNull, JStr []}"
    by (simp_all add: request_by_def example_credit_body_def get_prop_Cons, simp_all add: get_prop_def)
  have c3: "castObjectId (new_id example_env) = Val (new_id example_env)"
    by code_simp
  have c4: "store_after PostCredit example_platform example_env empty_store ?post = credit_store"
    by code_simp
  have p1: "protect example_platform credit_store ?pay = Some agent"
    by code_simp
  have p2: "castObjectId (param_id ?pay) = Val (s_id example_sale)"
    by code_simp
  have m1: "protect example_platform credit_store ?miss = Some agent"
    by code_simp
  have m2: "available credit_store"
    by code_simp
  have m3: "castObjectId (param_id ?miss) = Val ''ffffffffffffffffffffffff''"
    by code_simp
  have m4: "credit_sale_of credit_store ''ffffffffffffffffffffffff'' = None"
    by code_simp
  have b1: "protect example_platform credit_store (payment_request agent ''abc'') = Some agent"
    by code_simp
  have b2: "castObjectId (param_id (payment_request agent ''abc'')) = CastError"
    by code_simp
  have b3: "length (param_id (payment_request agent ''abc'')) \<noteq> 12"
    by (simp add: payment_request_def)
  have n: "now later_env = 2000" "now latest_env = 3000"
    by (simp_all add: later_env_def latest_env_def)
  note t = credit_payment_round_trip [of example_platform example_env empty_store ?post]
  from t c1 c2 c3 have unpaid: "sale_isPaid example_sale = Some False"
    "sale_paymentDate example_sale = None"
    by blast+
  from t c1 c2 c3 have
    "\<forall>pay u E1 E2.
       protect example_platform
         (store_after PostCredit example_platform example_env empty_store ?post) pay = Some u \<and>
       castObjectId (param_id pay) = Val (s_id example_sale) \<longrightarrow>
       (\<exists>d1 d2.
          out_response (route PatchPayment example_platform E1
             (store_after PostCredit example_platform example_env empty_store ?post) pay) =
            \<lparr>r_status = 200, r_payload = Data (SaleDoc d1)\<rparr> \<and>
          sale_isPaid d1 = Some True \<and> sale_paymentDate d1 = Some (now E1) \<and>
          without_payment d1 = without_payment example_sale \<and>
          out_response (route PatchPayment example_platform E2
              (store_after PatchPayment example_platform E1
                 (store_after PostCredit example_platform example_env empty_store ?post) pay) pay) =
            \<lparr>r_status = 200, r_payload = Data (SaleDoc d2)\<rparr> \<and>
          sale_isPaid d2 = Some True \<and> sale_paymentDate d2 = Some (now E2) \<and>
          without_payment d2 = without_payment example_sale)"
    by blast
  from this [unfolded c4, rule_format, of ?pay agent later_env latest_env] p1 p2
  have paid: "\<exists>d1 d2.
      out_response (route PatchPayment example_platform later_env credit_store ?pay) =
        \<lparr>r_status = 200, r_payload = Data (SaleDoc d1)\<rparr> \<and>
      sale_isPaid d1 = Some True \<and> sale_paymentDate d1 = Some 2000 \<and>
      out_response (route PatchPayment example_platform latest_env
          (store_after PatchPayment example_platform later_env credit_store ?pay) ?pay) =
        \<lparr>r_status = 200, r_payload = Data (SaleDoc d2)\<rparr> \<and>
      sale_isPaid d2 = Some True \<and> sale_paymentDate d2 = Some 3000"
    unfolding n by blast
  from credit_payment_round_trip [of example_platform later_env credit_store ?miss] m1 m2 m3 m4
  have missing: "route PatchPayment example_platform later_env credit_store ?miss =
      respond 404 (ErrorMessage ''Credit sale not found'') credit_store [Authenticate, Persist]"
    by blast
  from credit_payment_round_trip [of example_platform later_env credit_store
      "payment_request agent ''abc''"] b1 b2 b3
  have malformed: "route PatchPayment example_platform later_env credit_store
      (payment_request agent ''abc'') =
      respond 500 (ErrorMessage ''Server error'') credit_store [Authenticate, Persist]"
    by blast
  from c1 c2 c3 unpaid c4 p1 p2 paid m1 m2 m3 m4 missing b1 b2 b3 malformed show ?thesis
    by (intro conjI)
qed

text \<open>
  The claim as stated fails twice. A body that omits \<^verbatim>\<open>isPaid\<close> but carries a
  \<^verbatim>\<open>paymentDate\<close> creates a sale with that payment date: the handler spreads the body into
  the data and the schema declares the path. And an identity that is no ObjectId resolves
  to no credit sale, yet the answer is 500, not 404: the cast inside \<^verbatim>\<open>findById\<close> throws.
\<close>

theorem credit_payment_counterexample:
  "get_prop ((''paymentDate'', JNum 5) # example_credit_body) ''isPaid'' = JUndefined \<and>
   out_response (route PostCredit example_platform example_env empty_store
     (request_by agent ((''paymentDate'', JNum 5) # example_credit_body))) =
     \<lparr>r_status = 201,
      r_payload = Data (SaleDoc (example_sale
        \<lparr>s_variant := Credit (example_credit\<lparr>credit_paymentDate := Some 5\<rparr>)\<rparr>))\<rparr> \<and>
   sale_paymentDate (example_sale
        \<lparr>s_variant := Credit (example_credit\<lparr>credit_paymentDate := Some 5\<rparr>)\<rparr>) = Some 5 \<and>
   list_all (\<lambda>s. s_id s \<noteq> ''abc'') (sales credit_store) \<and>
   out_response (route PatchPayment example_platform later_env credit_store
     (payment_request agent ''abc'')) =
     \<lparr>r_status = 500, r_payload = ErrorMessage ''Server error''\<rparr>"
  by code_simp

subsection \<open>What the routes change\<close>

lemma kept_refl: "list_all2 (kept ep req) xs xs"
  by (simp add: list_all2_same kept_def)

lemma without_payment_mark_paid:
  "without_payment ((mark_paid E s)\<lparr>s_updatedAt := t\<rparr>) = without_payment s"
  by (simp add: without_payment_def mark_paid_def split: variant.split)

lemma kept_replaced:
  assumes "distinct (map s_id xs)" and "s \<in> set xs"
    and "castObjectId (param_id req) = Val (s_id s)"
  shows "list_all2 (kept PatchPayment req) xs
           (map (\<lambda>x. if s_id x = s_id s then (mark_paid E s)\<lparr>s_updatedAt := t\<rparr> else x) xs)"
proof -
  have "kept PatchPayment req x (if s_id x = s_id s then (mark_paid E s)\<lparr>s_updatedAt := t\<rparr> else x)"
    if "x \<in> set xs" for x
  proof (cases "s_id x = s_id s")
    case True
    with assms(1,2) that have "x = s"
      by (simp add: distinct_map inj_on_def)
    with assms(3) show ?thesis
      by (simp add: kept_def without_payment_mark_paid)
  next
    case False
    then show ?thesis by (simp add: kept_def)
  qed
  then show ?thesis
    by (simp add: list_all2_map2 list_all2_same)
qed

lemma framed_same: "distinct (map s_id (sales st)) \<Longrightarrow> framed ep req st st"
  by (simp add: framed_def kept_refl)

lemma framed_post_procurement:
  "distinct (map s_id (sales st)) \<Longrightarrow> framed PostProcurement req st (out_store (post_procurement P E st req))"
  by (auto simp: framed_def kept_refl post_procurement_def guarded_def post_procurement_handler_def
        Let_def server_error_def Procurement_create_def
        split: option.splits sum.splits if_splits)

lemma framed_post_sale:
  assumes "distinct (map s_id (sales st))"
  shows "framed ep req st (out_store (guarded P st req rs (post_sale_handler chs name key P E st body)))"
  using assms
  by (auto simp: framed_def kept_refl guarded_def post_sale_handler_def and_then_def
        Let_def server_error_def model_create_def
        split: option.splits sum.splits if_splits)

lemma framed_patch:
  assumes "distinct (map s_id (sales st))"
  shows "framed PatchPayment req st (out_store (patch_payment P E st req))"
proof (cases "protect P st req")
  case None
  with assms show ?thesis
    by (simp add: patch_payment_def guarded_def framed_same)
next
  case (Some u)
  show ?thesis
  proof (cases "castObjectId (param_id req)")
    case (Val oid)
    show ?thesis
    proof (cases "available st")
      case True
      note r = patch_payment_cast [OF Some True Val, of E, simplified]
      show ?thesis
      proof (cases "credit_sale_of st oid")
        case None
        with r assms show ?thesis by (simp add: framed_same)
      next
        case (Some s)
        then have s: "s \<in> set (sales st)" "s_id s = oid"
          by (auto simp: credit_sale_of_def find_Some_iff)
        from kept_replaced [OF assms s(1), where req = req and E = E and t = "store_now E"] Val s(2)
        have k: "list_all2 (kept PatchPayment req) (sales st)
           (map (\<lambda>x. if s_id x = s_id s then (mark_paid E s)\<lparr>s_updatedAt := store_now E\<rparr> else x)
              (sales st))"
          by simp
        have m: "s_id \<circ> (\<lambda>x. if s_id x = s_id s then (mark_paid E s)\<lparr>s_updatedAt := store_now E\<rparr> else x)
              = s_id"
          by (auto simp: fun_eq_iff)
        from r Some k m assms show ?thesis
          by (simp add: framed_def kept_refl)
      qed
    next
      case False
      with Some Val assms show ?thesis
        by (simp add: patch_payment_def guarded_def and_then_def resolve_CreditSale
              model_findById_def server_error_def framed_same)
    qed
  qed (use Some assms in \<open>simp_all add: patch_payment_def guarded_def and_then_def resolve_CreditSale
              model_findById_def server_error_def framed_same\<close>)
qed

text \<open>
  Claim C8, as amended. On a store whose sales have distinct identities, every request on
  every endpoint of the two routers leaves the users, every procurement and every sale in
  place and unchanged, and may append one new document; the one exception is the payment
  route, which changes \<^verbatim>\<open>isPaid\<close>, \<^verbatim>\<open>paymentDate\<close> and \<^verbatim>\<open>updatedAt\<close> of the credit sale it
  names and nothing else. No request removes a document.
\<close>

theorem only_payment_mutates:
  assumes "distinct (map s_id (sales st))"
  shows "framed ep req st (out_store (route ep P E st req))"
proof (cases ep)
  case PostProcurement
  with assms show ?thesis by (simp add: framed_post_procurement)
next
  case GetProcurements
  with assms show ?thesis
    by (simp add: get_procurements_def guarded_def server_error_def framed_same
          split: option.split sum.split)
next
  case GetProcurement
  with assms show ?thesis
    by (simp add: get_procurement_def guarded_def server_error_def framed_same
          split: option.split sum.split)
next
  case PostCash
  with assms show ?thesis by (simp add: post_cash_def framed_post_sale)
next
  case PostCredit
  with assms show ?thesis by (simp add: post_credit_def framed_post_sale)
next
  case GetSales
  with assms show ?thesis
    by (simp add: get_sales_def guarded_def server_error_def framed_same
          split: option.split sum.split)
next
  case PatchPayment
  with assms show ?thesis by (simp add: framed_patch)
qed

text \<open>Paying the example credit sale.\<close>

theorem only_payment_mutates_witness:
  "distinct (map s_id (sales credit_store)) \<and>
   framed PatchPayment (payment_request agent ''0123456789abcdef01234567'') credit_store
     (out_store (route PatchPayment example_platform later_env credit_store
        (payment_request agent ''0123456789abcdef01234567'')))"
proof -
  have h: "distinct (map s_id (sales credit_store))"
    by code_simp
  from only_payment_mutates [OF h] h show ?thesis
    by blast
qed

text \<open>
  The claim as stated fails on \<^verbatim>\<open>updatedAt\<close>: the sale schema is declared with
  \<^verbatim>\<open>timestamps: true\<close>, so saving the paid sale also moves its \<^verbatim>\<open>updatedAt\<close>, here
  from 1001 to 2001.
\<close>

theorem updatedAt_counterexample:
  "sales credit_store = [example_sale] \<and> s_updatedAt example_sale = 1001 \<and>
   sales (out_store (route PatchPayment example_platform later_env credit_store
      (payment_request agent ''0123456789abcdef01234567''))) =
     [example_sale\<lparr>s_updatedAt := 2001,
        s_variant := Credit (example_credit\<lparr>credit_isPaid := Some True,
                                             credit_paymentDate := Some 2000\<rparr>)\<rparr>]"
  by code_simp

end
